theory Spec2Isabelle
  imports Complex_Main "HOL-Library.Word" "HOL-Library.Sublist" "HOL-Library.Char_ord"
    "HOL-Library.List_Lexorder" "HOL-Library.Multiset"
begin

section \<open>Configuration and system data\<close>

text \<open>
  The structs of \<open>ollama_smart_benchmark.go\<close>.  Go's \<open>int\<close> and \<open>int64\<close> are both 64-bit
  two's complement integers on the platforms the program runs on (it reads the memory size
  with \<open>sysctl hw.memsize\<close>); they are words, read with \<^const>\<open>sint\<close> and compared with
  the signed order.  A \<open>float64\<close> is modelled by the real number it denotes: no operation of
  the program yields an infinity or a NaN, and the rounding of the single operations is not
  part of the model.
\<close>

type_synonym int64 = "64 word"
type_synonym float64 = real

record LLMFamily =
  Name :: string
  Enabled :: bool
  TestAllVariants :: bool

record ResourceLimits =
  MaxRAMUsagePercent :: int64
  MinFreeRAMGB :: int64

record TestSettings =
  AutoPullModels :: bool
  SkipIfInsufficientResources :: bool
  ParallelTesting :: bool

record Config =
  LLMFamilies :: "LLMFamily list"
  ResourceLimits :: ResourceLimits
  TestSettings :: TestSettings

record SystemInfo =
  TotalRAMGB :: int64
  AvailableRAMGB :: int64
  Arch :: string

record OllamaModel =
  Name :: string
  ModifiedAt :: string
  Size :: int64

record OllamaTagsResponse =
  Models :: "OllamaModel list"

section \<open>Strings\<close>

text \<open>
  A Go string is a sequence of bytes, modelled as \<^typ>\<open>string\<close>.  The three functions of
  package \<open>strings\<close> that the benchmark driver calls are written out: \<open>strings.Split\<close> with
  the one-byte separator the driver passes, \<open>strings.Contains\<close> and \<open>strings.HasPrefix\<close>.
\<close>

fun Split :: "string \<Rightarrow> char \<Rightarrow> string list" where
  "Split [] sep = [[]]"
| "Split (c # cs) sep =
     (if c = sep then [] # Split cs sep
      else (case Split cs sep of
              [] \<Rightarrow> [[c]]
            | p # ps \<Rightarrow> (c # p) # ps))"

fun Contains :: "string \<Rightarrow> string \<Rightarrow> bool" where
  "Contains [] substr = (substr = [])"
| "Contains (c # cs) substr = (prefix substr (c # cs) \<or> Contains cs substr)"

definition HasPrefix :: "string \<Rightarrow> string \<Rightarrow> bool" where
  "HasPrefix s pre = prefix pre s"

section \<open>Footprint estimation\<close>

text \<open>\<open>extractModelSize\<close>: the second field of the name split at colons, when there is one.\<close>

definition extractModelSize :: "string \<Rightarrow> string" where
  "extractModelSize modelName =
     (let parts = Split modelName (CHR '':'')
      in if length parts > 1 then parts ! 1 else ''unknown'')"

text \<open>\<open>estimateModelRAM\<close>: the chain of substring tests, in the order of the source.\<close>

definition estimateModelRAM :: "string \<Rightarrow> int64" where
  "estimateModelRAM modelName =
     (let size = extractModelSize modelName in
      if Contains size ''0.5b'' \<or> Contains size ''0.6b'' then 1
      else if Contains size ''1b'' \<or> Contains size ''1.3b'' \<or> Contains size ''1.5b''
              \<or> Contains size ''1.7b'' then 2
      else if Contains size ''2b'' then 2
      else if Contains size ''3b'' then 3
      else if Contains size ''6.7b'' \<or> Contains size ''7b'' then 5
      else if Contains size ''8b'' then 6
      else if Contains size ''9b'' then 6
      else if Contains size ''13b'' \<or> Contains size ''14b'' then 9
      else if Contains size ''27b'' then 16
      else if Contains size ''32b'' \<or> Contains size ''33b'' \<or> Contains size ''34b'' then 20
      else if Contains size ''70b'' then 40
      else if Contains size ''235b'' then 130
      else if Contains size ''405b'' then 220
      else if Contains size ''671b'' then 370
      else if Contains size ''mini'' then 3
      else if Contains size ''medium'' then 9
      else 5)"

text \<open>The tokens that the chain tests, in its order.\<close>

definition size_tokens :: "string list" where
  "size_tokens =
     [''0.5b'', ''0.6b'', ''1b'', ''1.3b'', ''1.5b'', ''1.7b'', ''2b'', ''3b'', ''6.7b'', ''7b'',
      ''8b'', ''9b'', ''13b'', ''14b'', ''27b'', ''32b'', ''33b'', ''34b'', ''70b'', ''235b'',
      ''405b'', ''671b'', ''mini'', ''medium'']"

text \<open>
  Two readings of "the size tag" for comparison with \<open>extractModelSize\<close>:
  \<open>after_first_colon\<close> is everything behind the first colon, \<open>until_colon\<close> cuts a text at
  its first colon.
\<close>

fun after_first_colon :: "string \<Rightarrow> string" where
  "after_first_colon [] = []"
| "after_first_colon (c # cs) = (if c = CHR '':'' then cs else after_first_colon cs)"

fun until_colon :: "string \<Rightarrow> string" where
  "until_colon [] = []"
| "until_colon (c # cs) = (if c = CHR '':'' then [] else c # until_colon cs)"

fun has_colon :: "string \<Rightarrow> bool" where
  "has_colon [] = False"
| "has_colon (c # cs) = (c = CHR '':'' \<or> has_colon cs)"

section \<open>Variant catalog\<close>

text \<open>\<open>getCommonVariants\<close>: the static table of reference variants, with its fallback.\<close>

definition variants :: "(string \<times> string list) list" where
  "variants =
     [(''qwen2.5'', [''qwen2.5:0.5b'', ''qwen2.5:1.5b'', ''qwen2.5:3b'', ''qwen2.5:7b'',
                     ''qwen2.5:14b'', ''qwen2.5:32b'']),
      (''gemma2'', [''gemma2:2b'', ''gemma2:9b'', ''gemma2:27b'']),
      (''llama3.2'', [''llama3.2:1b'', ''llama3.2:3b'']),
      (''llama3.1'', [''llama3.1:8b'', ''llama3.1:70b'', ''llama3.1:405b'']),
      (''mistral'', [''mistral:7b'', ''mistral:latest'']),
      (''codellama'', [''codellama:7b'', ''codellama:13b'', ''codellama:34b'',
                       ''codellama:70b'']),
      (''phi3'', [''phi3:mini'', ''phi3:medium'']),
      (''deepseek-coder'', [''deepseek-coder:1.3b'', ''deepseek-coder:6.7b'',
                            ''deepseek-coder:33b''])]"

definition getCommonVariants :: "string \<Rightarrow> string list" where
  "getCommonVariants family =
     (case map_of variants family of
        Some v \<Rightarrow> v
      | None \<Rightarrow> [family @ '':latest''])"

text \<open>
  The loop over the reference variants of one family: a variant is appended unless a linear
  search finds it in the list built so far.
\<close>

fun add_variants :: "string list \<Rightarrow> string list \<Rightarrow> string list" where
  "add_variants models [] = models"
| "add_variants models (variant # rest) =
     add_variants (if variant \<in> set models then models else models @ [variant]) rest"

text \<open>
  The loop over the installed names for one family appends every name that has the family
  name as a prefix, with no search of the list built so far.  \<open>keys\<close> are the keys of the map
  \<open>installedModels\<close> in the order in which the \<open>range\<close> statement yields them.
\<close>

fun add_installed :: "string list \<Rightarrow> string \<Rightarrow> string list \<Rightarrow> string list" where
  "add_installed models family [] = models"
| "add_installed models family (modelName # rest) =
     add_installed (if HasPrefix modelName family then models @ [modelName] else models)
       family rest"

definition family_step :: "string list \<Rightarrow> string list \<Rightarrow> LLMFamily \<Rightarrow> string list" where
  "family_step keys models family =
     (if \<not> Enabled family then models
      else let models1 = add_installed models (LLMFamily.Name family) keys
           in if TestAllVariants family
              then add_variants models1 (getCommonVariants (LLMFamily.Name family))
              else models1)"

text \<open>
  \<open>getOllamaLibraryModels\<close>.  The answer of \<open>GET /api/tags\<close> is \<open>None\<close> when the request
  or the decoding of its body fails, and the function then returns the empty list.  The keys
  of the map of installed names are the names of the answer without repetitions; Go leaves the
  order of a \<open>range\<close> over a map open, and \<open>sort.Strings\<close> at the end makes the result the
  same for every order.  \<open>sort.Strings\<close> orders by Go's \<open><\<close> on strings, the lexicographic
  order on bytes, which is the order of \<^typ>\<open>string\<close> here.
\<close>

definition getOllamaLibraryModels :: "Config \<Rightarrow> OllamaTagsResponse option \<Rightarrow> string list" where
  "getOllamaLibraryModels config resp =
     (case resp of
        None \<Rightarrow> []
      | Some tagsResp \<Rightarrow>
          sort (foldl (family_step (remdups (map OllamaModel.Name (Models tagsResp)))) []
                  (LLMFamilies config)))"

section \<open>Admission filter\<close>

text \<open>
  The test of the loop of \<open>filterModelsByResources\<close>: the sum is the \<open>int64\<close> sum, which
  wraps around, and the comparison is signed.
\<close>

definition admitted :: "int64 \<Rightarrow> int64 \<Rightarrow> int64 \<Rightarrow> bool" where
  "admitted estimatedRAM minFree available = (estimatedRAM + minFree \<le>s available)"

text \<open>The loop of \<open>filterModelsByResources\<close>, with the slice \<open>testable\<close> as accumulator.\<close>

fun filter_loop :: "int64 \<Rightarrow> int64 \<Rightarrow> string list \<Rightarrow> string list \<Rightarrow> string list" where
  "filter_loop minFree available testable [] = testable"
| "filter_loop minFree available testable (model # rest) =
     (let estimatedRAM = estimateModelRAM model
      in filter_loop minFree available
           (if admitted estimatedRAM minFree available then testable @ [model]
            else testable)
           rest)"

definition filterModelsByResources :: "string list \<Rightarrow> SystemInfo \<Rightarrow> Config \<Rightarrow> string list" where
  "filterModelsByResources models sysInfo config =
     (if \<not> SkipIfInsufficientResources (TestSettings config) then models
      else filter_loop (MinFreeRAMGB (ResourceLimits config)) (AvailableRAMGB sysInfo) []
             models)"

section \<open>The inference daemon as seen by the driver\<close>

text \<open>
  Every call to the daemon is an effect; its outcome is a value given to the model of the
  function that makes the call.

  A generation call goes through four fallible steps (building the request, sending it,
  reading the body, decoding the body) and otherwise yields the decoded answer together with
  the elapsed wall-clock time in milliseconds (\<open>totalTime.Milliseconds()\<close>).  The error
  cases carry the text of the Go error.
\<close>

record GenerateResponse =
  Model :: string
  CreatedAt :: string
  Response :: string
  Done :: bool
  TotalDuration :: int64
  LoadDuration :: int64
  PromptEvalCount :: int64
  PromptEvalDuration :: int64
  EvalCount :: int64
  EvalDuration :: int64

datatype generate_call =
    MarshalError string
  | SendError string
  | ReadError string
  | ParseError string
  | Answer GenerateResponse int64

text \<open>
  A pull call fails at the request, or yields a body that the JSON decoder reads object by
  object.  The body is finite: the decoder returns finitely many objects and then either
  \<open>io.EOF\<close> or another error (a transport error, malformed JSON, a value that is no
  object).  Of each object the driver reads the entry \<open>status\<close>, which is missing, a string,
  or a value of another type.
\<close>

datatype status_value = NoStatus | StatusString string | StatusOther

datatype stream_end = EOF | DecodeError

datatype pull_call = PullPostError | PullStream "status_value list" stream_end

text \<open>
  What one model meets during the run: the answer to the query for the installed models,
  the pull call, and the generation calls by the position of the test case.
\<close>

record model_env =
  tags :: "OllamaTagsResponse option"
  pull :: pull_call
  generate :: "nat \<Rightarrow> generate_call"

section \<open>The basic driver\<close>

text \<open>
  \<open>ollama_benchmark.go\<close> is a second program with functions of the same names.  Its structs
  and functions carry the suffix \<open>_basic\<close> here; its \<open>GenerateResponse\<close> is the one above.
\<close>

record TestCase_basic =
  Name :: string
  Prompt :: string
  Category :: string
  ExpectedLen :: int64

record BenchmarkResult_basic =
  ModelName :: string
  TestName :: string
  Category :: string
  TokensPerSecond :: float64
  TimeToFirstToken :: float64
  TotalTokens :: int64
  PromptTokens :: int64
  TotalTimeMs :: float64
  Response :: string
  Success :: bool
  Error :: string

record ModelComparison =
  ModelName :: string
  AvgTokensPerSec :: float64
  AvgTotalTimeMs :: float64
  TestResults :: "BenchmarkResult_basic list"

text \<open>
  \<open>pullModel\<close> of \<open>ollama_benchmark.go\<close>: the loop ends with success at the first object
  whose status is the string \<open>success\<close>, and with failure at any error of the decoder,
  \<open>io.EOF\<close> included.
\<close>

fun pull_loop_basic :: "status_value list \<Rightarrow> stream_end \<Rightarrow> bool" where
  "pull_loop_basic [] e = False"
| "pull_loop_basic (status # rest) e =
     (if status = StatusString ''success'' then True else pull_loop_basic rest e)"

definition pullModel_basic :: "string \<Rightarrow> pull_call \<Rightarrow> bool" where
  "pullModel_basic model call =
     (case call of
        PullPostError \<Rightarrow> False
      | PullStream objects e \<Rightarrow> pull_loop_basic objects e)"

text \<open>\<open>runBenchmark\<close> of \<open>ollama_benchmark.go\<close>.\<close>

definition runBenchmark_basic :: "string \<Rightarrow> TestCase_basic \<Rightarrow> generate_call \<Rightarrow> BenchmarkResult_basic" where
  "runBenchmark_basic model test call =
     (let result = \<lparr>BenchmarkResult_basic.ModelName = model,
                    TestName = TestCase_basic.Name test,
                    BenchmarkResult_basic.Category = TestCase_basic.Category test,
                    TokensPerSecond = 0, TimeToFirstToken = 0, TotalTokens = 0,
                    PromptTokens = 0, TotalTimeMs = 0, BenchmarkResult_basic.Response = [],
                    Success = False, Error = []\<rparr>
      in case call of
           MarshalError err \<Rightarrow> result\<lparr>Error := ''Failed to marshal request: '' @ err\<rparr>
         | SendError err \<Rightarrow> result\<lparr>Error := ''Failed to send request: '' @ err\<rparr>
         | ReadError err \<Rightarrow> result\<lparr>Error := ''Failed to read response: '' @ err\<rparr>
         | ParseError err \<Rightarrow> result\<lparr>Error := ''Failed to parse response: '' @ err\<rparr>
         | Answer genResp totalTime \<Rightarrow>
             (let result1 = result\<lparr>Success := True,
                              BenchmarkResult_basic.Response := GenerateResponse.Response genResp,
                              TotalTokens := EvalCount genResp,
                              PromptTokens := PromptEvalCount genResp,
                              TotalTimeMs := real_of_int (sint totalTime)\<rparr>;
                  result2 =
                    (if 0 <s EvalDuration genResp
                     then result1\<lparr>TokensPerSecond :=
                            real_of_int (sint (EvalCount genResp))
                              / real_of_int (sint (EvalDuration genResp)) * 1000000000\<rparr>
                     else result1)
              in if 0 <s LoadDuration genResp \<and> 0 <s PromptEvalDuration genResp
                 then result2\<lparr>TimeToFirstToken :=
                        real_of_int (sint (LoadDuration genResp + PromptEvalDuration genResp))
                          / 1000000\<rparr>
                 else result2))"

text \<open>
  \<open>displayComparison\<close>: the categories are those of all results, the tables list the
  successful results, and the search for the best model is that of the other driver.
\<close>

definition categories_basic :: "ModelComparison list \<Rightarrow> string set" where
  "categories_basic comparisons =
     set [BenchmarkResult_basic.Category r. cmp \<leftarrow> comparisons, r \<leftarrow> TestResults cmp]"

definition category_table_basic :: "ModelComparison list \<Rightarrow> string \<Rightarrow> (string \<times> float64 \<times> float64 \<times> int64) list" where
  "category_table_basic comparisons category =
     [(ModelComparison.ModelName cmp, TokensPerSecond r, TotalTimeMs r, TotalTokens r).
        cmp \<leftarrow> comparisons, r \<leftarrow> TestResults cmp,
        BenchmarkResult_basic.Category r = category \<and> Success r]"

fun best_of_results_basic :: "string \<Rightarrow> string \<Rightarrow> string \<times> float64 \<Rightarrow> BenchmarkResult_basic list \<Rightarrow> string \<times> float64" where
  "best_of_results_basic category name best [] = best"
| "best_of_results_basic category name (bestModel, bestSpeed) (r # rest) =
     best_of_results_basic category name
       (if BenchmarkResult_basic.Category r = category \<and> Success r
           \<and> TokensPerSecond r > bestSpeed
        then (name, TokensPerSecond r)
        else (bestModel, bestSpeed))
       rest"

fun best_of_comparisons :: "string \<Rightarrow> string \<times> float64 \<Rightarrow> ModelComparison list \<Rightarrow> string \<times> float64" where
  "best_of_comparisons category best [] = best"
| "best_of_comparisons category best (cmp # rest) =
     best_of_comparisons category
       (best_of_results_basic category (ModelComparison.ModelName cmp) best (TestResults cmp))
       rest"

definition best_in_category_basic :: "ModelComparison list \<Rightarrow> string \<Rightarrow> (string \<times> string \<times> float64) option" where
  "best_in_category_basic comparisons category =
     (case best_of_comparisons category ('''', 0) comparisons of
        (bestModel, bestSpeed) \<Rightarrow>
          if bestModel \<noteq> '''' then Some (category, bestModel, bestSpeed) else None)"

section \<open>Benchmark executor\<close>

record TestCase =
  Name :: string
  Prompt :: string
  Category :: string

record BenchmarkResult =
  ModelName :: string
  ModelSize :: string
  TestName :: string
  Category :: string
  TokensPerSecond :: float64
  TimeToFirstToken :: float64
  TotalTokens :: int64
  PromptTokens :: int64
  TotalTimeMs :: float64
  Response :: string
  Success :: bool
  Error :: string
  RAMUsedGB :: float64

record ModelSummary =
  ModelName :: string
  ModelSize :: string
  AvgTokensPerSec :: float64
  AvgTotalTimeMs :: float64
  TestResults :: "BenchmarkResult list"
  CanRun :: bool
  SkipReason :: string

text \<open>The fixed battery of \<open>main\<close>.\<close>

definition testCases :: "TestCase list" where
  "testCases =
     [\<lparr>TestCase.Name = ''Simple Reasoning'',
       Prompt = ''Explain the concept of recursion in programming in one paragraph.'',
       Category = ''reasoning''\<rparr>,
      \<lparr>TestCase.Name = ''Code Generation'',
       Prompt = ''Write a Python function to calculate the factorial of a number using recursion.'',
       Category = ''coding''\<rparr>,
      \<lparr>TestCase.Name = ''Mathematical Problem'',
       Prompt = ''If a train travels at 60 mph for 2.5 hours, how far does it travel? Show your work.'',
       Category = ''math''\<rparr>,
      \<lparr>TestCase.Name = ''Creative Writing'',
       Prompt = ''Write a short haiku about artificial intelligence.'',
       Category = ''creative''\<rparr>,
      \<lparr>TestCase.Name = ''Question Answering'',
       Prompt = ''What is the capital of France and what is it famous for?'',
       Category = ''qa''\<rparr>]"

text \<open>\<open>checkModelInstalled\<close>: exact equality with a name of the listing.\<close>

definition checkModelInstalled :: "string \<Rightarrow> OllamaTagsResponse option \<Rightarrow> bool" where
  "checkModelInstalled model resp =
     (case resp of
        None \<Rightarrow> False
      | Some tagsResp \<Rightarrow> model \<in> set (map OllamaModel.Name (Models tagsResp)))"

text \<open>
  \<open>pullModel\<close> of \<open>ollama_smart_benchmark.go\<close>: the loop ends with success at \<open>io.EOF\<close> and at
  the first status string that contains \<open>success\<close>, and with failure at any other error.
\<close>

fun pull_loop :: "status_value list \<Rightarrow> stream_end \<Rightarrow> bool" where
  "pull_loop [] e = (case e of EOF \<Rightarrow> True | DecodeError \<Rightarrow> False)"
| "pull_loop (status # rest) e =
     (case status of
        StatusString statusStr \<Rightarrow>
          if Contains statusStr ''success'' then True else pull_loop rest e
      | _ \<Rightarrow> pull_loop rest e)"

definition pullModel :: "string \<Rightarrow> pull_call \<Rightarrow> bool" where
  "pullModel model call =
     (case call of
        PullPostError \<Rightarrow> False
      | PullStream objects e \<Rightarrow> pull_loop objects e)"

text \<open>\<open>runBenchmark\<close> of \<open>ollama_smart_benchmark.go\<close>.\<close>

definition runBenchmark :: "string \<Rightarrow> TestCase \<Rightarrow> generate_call \<Rightarrow> BenchmarkResult" where
  "runBenchmark model test call =
     (let result = \<lparr>BenchmarkResult.ModelName = model,
                    BenchmarkResult.ModelSize = extractModelSize model,
                    TestName = TestCase.Name test,
                    BenchmarkResult.Category = TestCase.Category test,
                    TokensPerSecond = 0, TimeToFirstToken = 0, TotalTokens = 0,
                    PromptTokens = 0, TotalTimeMs = 0, BenchmarkResult.Response = [],
                    Success = False, Error = [], RAMUsedGB = 0\<rparr>
      in case call of
           MarshalError err \<Rightarrow> result\<lparr>Error := ''Failed to marshal request: '' @ err\<rparr>
         | SendError err \<Rightarrow> result\<lparr>Error := ''Failed to send request: '' @ err\<rparr>
         | ReadError err \<Rightarrow> result\<lparr>Error := ''Failed to read response: '' @ err\<rparr>
         | ParseError err \<Rightarrow> result\<lparr>Error := ''Failed to parse response: '' @ err\<rparr>
         | Answer genResp totalTime \<Rightarrow>
             (let result1 = result\<lparr>Success := True,
                              BenchmarkResult.Response := GenerateResponse.Response genResp,
                              TotalTokens := EvalCount genResp,
                              PromptTokens := PromptEvalCount genResp,
                              TotalTimeMs := real_of_int (sint totalTime),
                              RAMUsedGB := real_of_int (sint (estimateModelRAM model))\<rparr>;
                  result2 =
                    (if 0 <s EvalDuration genResp
                     then result1\<lparr>TokensPerSecond :=
                            real_of_int (sint (EvalCount genResp))
                              / real_of_int (sint (EvalDuration genResp)) * 1000000000\<rparr>
                     else result1)
              in if 0 <s LoadDuration genResp \<and> 0 <s PromptEvalDuration genResp
                 then result2\<lparr>TimeToFirstToken :=
                        real_of_int (sint (LoadDuration genResp + PromptEvalDuration genResp))
                          / 1000000\<rparr>
                 else result2))"

text \<open>
  The loop over the test cases in \<open>main\<close>, with its four accumulators; \<open>k\<close> is the position
  of the test case.
\<close>

record test_acc =
  results :: "BenchmarkResult list"
  totalTPS :: float64
  totalTime :: float64
  successCount :: nat

fun test_loop :: "string \<Rightarrow> (nat \<Rightarrow> generate_call) \<Rightarrow> nat \<Rightarrow> test_acc \<Rightarrow> TestCase list \<Rightarrow> test_acc" where
  "test_loop model gen k acc [] = acc"
| "test_loop model gen k acc (test # rest) =
     (let result = runBenchmark model test (gen k);
          acc1 = acc\<lparr>results := results acc @ [result]\<rparr>;
          acc2 = (if Success result
                  then acc1\<lparr>totalTPS := totalTPS acc1 + TokensPerSecond result,
                            totalTime := totalTime acc1 + TotalTimeMs result,
                            successCount := successCount acc1 + 1\<rparr>
                  else acc1)
      in test_loop model gen (Suc k) acc2 rest)"

definition skipped :: "string \<Rightarrow> string \<Rightarrow> ModelSummary" where
  "skipped model reason =
     \<lparr>ModelSummary.ModelName = model, ModelSummary.ModelSize = [], AvgTokensPerSec = 0,
      AvgTotalTimeMs = 0, TestResults = [], CanRun = False, SkipReason = reason\<rparr>"

definition summarize :: "string \<Rightarrow> test_acc \<Rightarrow> ModelSummary" where
  "summarize model acc =
     (let avgTPS = (if successCount acc > 0 then totalTPS acc / real (successCount acc) else 0);
          avgTime = (if successCount acc > 0 then totalTime acc / real (successCount acc) else 0)
      in \<lparr>ModelSummary.ModelName = model, ModelSummary.ModelSize = extractModelSize model,
          AvgTokensPerSec = avgTPS, AvgTotalTimeMs = avgTime, TestResults = results acc,
          CanRun = (successCount acc > 0), SkipReason = []\<rparr>)"

text \<open>The body of the loop over the models in \<open>main\<close>: one summary for one model.\<close>

definition benchmark_model :: "Config \<Rightarrow> TestCase list \<Rightarrow> model_env \<Rightarrow> string \<Rightarrow> ModelSummary" where
  "benchmark_model config tests env model =
     (let run = summarize model
                  (test_loop model (generate env) 0
                     \<lparr>results = [], totalTPS = 0, totalTime = 0, successCount = 0\<rparr> tests)
      in if \<not> checkModelInstalled model (tags env)
         then (if AutoPullModels (TestSettings config)
               then (if \<not> pullModel model (pull env)
                     then skipped model ''Failed to pull model''
                     else run)
               else skipped model ''Model not installed'')
         else run)"

text \<open>The loop over the testable models; \<open>daemon k\<close> is what the \<open>k\<close>-th model meets.\<close>

fun model_loop :: "Config \<Rightarrow> TestCase list \<Rightarrow> (nat \<Rightarrow> model_env) \<Rightarrow> nat \<Rightarrow> ModelSummary list \<Rightarrow> string list \<Rightarrow> ModelSummary list" where
  "model_loop config tests daemon k summaries [] = summaries"
| "model_loop config tests daemon k summaries (model # rest) =
     model_loop config tests daemon (Suc k)
       (summaries @ [benchmark_model config tests (daemon k) model]) rest"

definition run_benchmarks :: "Config \<Rightarrow> (nat \<Rightarrow> model_env) \<Rightarrow> string list \<Rightarrow> ModelSummary list" where
  "run_benchmarks config daemon testableModels =
     model_loop config testCases daemon 0 [] testableModels"

section \<open>Aggregator and ranker\<close>

text \<open>
  \<open>displayResults\<close> prints; the model returns what it prints.  The comparison handed to
  \<open>sort.Slice\<close> reads the slice at two indices, which is a comparison of the two elements.
\<close>

definition by_speed :: "ModelSummary \<Rightarrow> ModelSummary \<Rightarrow> bool" where
  "by_speed a b = (AvgTokensPerSec a > AvgTokensPerSec b)"

text \<open>
  \<open>sort.Slice\<close> belongs to Go's standard library and is a parameter of the model.  Its
  documentation promises a slice sorted by the comparison, and says that the sort is not
  guaranteed to be stable; the comparison has to be a strict weak order.
\<close>

type_synonym 'a slice_sort = "('a \<Rightarrow> 'a \<Rightarrow> bool) \<Rightarrow> 'a list \<Rightarrow> 'a list"

definition strict_weak_order :: "('a \<Rightarrow> 'a \<Rightarrow> bool) \<Rightarrow> bool" where
  "strict_weak_order lt \<longleftrightarrow>
     (\<forall>a b. lt a b \<longrightarrow> \<not> lt b a)
     \<and> (\<forall>a b c. \<not> lt a b \<and> \<not> lt b c \<longrightarrow> \<not> lt a c)"

definition sort_Slice_contract :: "'a slice_sort \<Rightarrow> bool" where
  "sort_Slice_contract sort_Slice \<longleftrightarrow>
     (\<forall>lt xs. strict_weak_order lt \<longrightarrow>
        mset (sort_Slice lt xs) = mset xs
        \<and> sorted_wrt (\<lambda>a b. \<not> lt b a) (sort_Slice lt xs))"

definition overall_ranking :: "ModelSummary slice_sort \<Rightarrow> ModelSummary list \<Rightarrow> ModelSummary list" where
  "overall_ranking sort_Slice summaries = sort_Slice by_speed (filter CanRun summaries)"

text \<open>The summaries of a list that have a given average, in the order of the list.\<close>

definition with_speed :: "float64 \<Rightarrow> ModelSummary list \<Rightarrow> ModelSummary list" where
  "with_speed v summaries = filter (\<lambda>s. AvgTokensPerSec s = v) summaries"

text \<open>
  One implementation within the contract: what \<open>sort.Slice\<close> of the Go releases up to 1.18
  runs on a slice of at most twelve elements, a pass that compares and swaps the elements
  six places apart, followed by insertion sort.  The pass starts at index 6, so the
  difference \<open>i - 6\<close> is never cut off at 0.
\<close>

function gap_pass :: "('a \<Rightarrow> 'a \<Rightarrow> bool) \<Rightarrow> nat \<Rightarrow> 'a list \<Rightarrow> 'a list" where
  "gap_pass lt i xs =
     (if i < length xs
      then gap_pass lt (Suc i)
             (if lt (xs ! i) (xs ! (i - 6)) then xs[i := xs ! (i - 6), i - 6 := xs ! i]
              else xs)
      else xs)"
  by pat_completeness auto
termination
  by (relation "measure (\<lambda>(lt, i, xs). length xs - i)") auto

declare gap_pass.simps [simp del]

text \<open>
  The inner loop of insertion sort moves the new element to the left as long as it is less
  than its left neighbour.
\<close>

definition insert_back :: "('a \<Rightarrow> 'a \<Rightarrow> bool) \<Rightarrow> 'a list \<Rightarrow> 'a \<Rightarrow> 'a list" where
  "insert_back lt ys x =
     rev (dropWhile (lt x) (rev ys)) @ x # rev (takeWhile (lt x) (rev ys))"

definition insertionSort :: "('a \<Rightarrow> 'a \<Rightarrow> bool) \<Rightarrow> 'a list \<Rightarrow> 'a list" where
  "insertionSort lt xs = foldl (insert_back lt) [] xs"

definition shell_insertion_sort :: "'a slice_sort" where
  "shell_insertion_sort lt xs = insertionSort lt (gap_pass lt 6 xs)"

text \<open>
  The categories of the breakdown: those of the successful results of the summaries that
  can run.  They are the keys of a Go map, hence a set.
\<close>

definition categories :: "ModelSummary list \<Rightarrow> string set" where
  "categories successful =
     set [BenchmarkResult.Category r. s \<leftarrow> successful, r \<leftarrow> TestResults s, Success r]"

text \<open>The lines of the table of one category: model, tokens per second, time, tokens.\<close>

definition category_table :: "ModelSummary list \<Rightarrow> string \<Rightarrow> (string \<times> float64 \<times> float64 \<times> int64) list" where
  "category_table successful category =
     [(ModelSummary.ModelName s, TokensPerSecond r, TotalTimeMs r, TotalTokens r).
        s \<leftarrow> successful, r \<leftarrow> TestResults s,
        BenchmarkResult.Category r = category \<and> Success r]"

text \<open>
  The search for the best model of one category: the two nested loops with the running best
  \<open>(bestModel, bestSpeed)\<close>, which starts at \<open>('''', 0)\<close>.
\<close>

fun best_of_results :: "string \<Rightarrow> string \<Rightarrow> string \<times> float64 \<Rightarrow> BenchmarkResult list \<Rightarrow> string \<times> float64" where
  "best_of_results category name best [] = best"
| "best_of_results category name (bestModel, bestSpeed) (r # rest) =
     best_of_results category name
       (if BenchmarkResult.Category r = category \<and> Success r \<and> TokensPerSecond r > bestSpeed
        then (name, TokensPerSecond r)
        else (bestModel, bestSpeed))
       rest"

fun best_of_summaries :: "string \<Rightarrow> string \<times> float64 \<Rightarrow> ModelSummary list \<Rightarrow> string \<times> float64" where
  "best_of_summaries category best [] = best"
| "best_of_summaries category best (s # rest) =
     best_of_summaries category
       (best_of_results category (ModelSummary.ModelName s) best (TestResults s)) rest"

text \<open>The line of the table of the best models for one category, when one is printed.\<close>

definition best_in_category :: "ModelSummary list \<Rightarrow> string \<Rightarrow> (string \<times> string \<times> float64) option" where
  "best_in_category successful category =
     (case best_of_summaries category ('''', 0) successful of
        (bestModel, bestSpeed) \<Rightarrow>
          if bestModel \<noteq> '''' then Some (category, bestModel, bestSpeed) else None)"

text \<open>
  \<open>displayResults\<close>: nothing for an empty list of summaries; otherwise the ranking, the
  categories with their tables, and the best model of each category.
\<close>

record report =
  ranking_lines :: "ModelSummary list"
  category_tables :: "(string \<times> (string \<times> float64 \<times> float64 \<times> int64) list) set"
  best_lines :: "(string \<times> string \<times> float64) set"

definition displayResults :: "ModelSummary slice_sort \<Rightarrow> ModelSummary list \<Rightarrow> report option" where
  "displayResults sort_Slice summaries =
     (if summaries = [] then None
      else let successful = overall_ranking sort_Slice summaries
           in Some \<lparr>ranking_lines = successful,
                    category_tables =
                      (\<lambda>c. (c, category_table successful c)) ` categories successful,
                    best_lines =
                      Option.these (best_in_category successful ` categories successful)\<rparr>)"

section \<open>Notions of the specification\<close>

text \<open>
  When a pull succeeds, in the words of the specification: some status that was read
  contains the text \<open>success\<close>, or the stream ends without an error.
\<close>

fun status_contains_success :: "status_value \<Rightarrow> bool" where
  "status_contains_success (StatusString statusStr) = Contains statusStr ''success''"
| "status_contains_success NoStatus = False"
| "status_contains_success StatusOther = False"

definition pull_succeeds_spec :: "pull_call \<Rightarrow> bool" where
  "pull_succeeds_spec call =
     (case call of
        PullPostError \<Rightarrow> False
      | PullStream objects e \<Rightarrow> list_ex status_contains_success objects \<or> e = EOF)"

text \<open>A generation call that fails at one of its four fallible steps.\<close>

fun failed_call :: "generate_call \<Rightarrow> bool" where
  "failed_call (Answer genResp elapsed) = False"
| "failed_call _ = True"

text \<open>The test cases with their positions, and the models with theirs.\<close>

definition numbered :: "'a list \<Rightarrow> (nat \<times> 'a) list" where
  "numbered xs = zip [0..<length xs] xs"

text \<open>The successful results of a summary, and the arithmetic mean, 0 for no values.\<close>

definition successes :: "ModelSummary \<Rightarrow> BenchmarkResult list" where
  "successes s = filter Success (TestResults s)"

definition mean :: "real list \<Rightarrow> real" where
  "mean xs = (if xs = [] then 0 else sum_list xs / real (length xs))"

section \<open>Example data\<close>

definition overlap_config :: Config where
  "overlap_config =
     \<lparr>LLMFamilies = [\<lparr>LLMFamily.Name = ''qwen2'', Enabled = True, TestAllVariants = False\<rparr>,
                     \<lparr>LLMFamily.Name = ''qwen2.5'', Enabled = True, TestAllVariants = False\<rparr>],
      ResourceLimits = \<lparr>MaxRAMUsagePercent = 70, MinFreeRAMGB = 4\<rparr>,
      TestSettings = \<lparr>AutoPullModels = True, SkipIfInsufficientResources = True,
                      ParallelTesting = False\<rparr>\<rparr>"

definition overlap_tags :: OllamaTagsResponse where
  "overlap_tags = \<lparr>Models = [\<lparr>OllamaModel.Name = ''qwen2.5:7b'', ModifiedAt = [], Size = 0\<rparr>]\<rparr>"

definition keep_all_config :: Config where
  "keep_all_config =
     overlap_config\<lparr>TestSettings := \<lparr>AutoPullModels = True, SkipIfInsufficientResources = False,
                                      ParallelTesting = False\<rparr>\<rparr>"

definition sys16 :: SystemInfo where
  "sys16 = \<lparr>TotalRAMGB = 24, AvailableRAMGB = 16, Arch = ''arm64''\<rparr>"

definition fast_answer :: GenerateResponse where
  "fast_answer =
     \<lparr>Model = ''llama3.2:1b'', CreatedAt = [], GenerateResponse.Response = ''ok'', Done = True,
      TotalDuration = 1005000000, LoadDuration = 2000000, PromptEvalCount = 12,
      PromptEvalDuration = 3000000, EvalCount = 50, EvalDuration = 1000000000\<rparr>"

text \<open>The answer that decoding the body \<open>{}\<close> gives: every field has its zero value.\<close>

definition zero_answer :: GenerateResponse where
  "zero_answer =
     \<lparr>Model = [], CreatedAt = [], GenerateResponse.Response = [], Done = False,
      TotalDuration = 0, LoadDuration = 0, PromptEvalCount = 0, PromptEvalDuration = 0,
      EvalCount = 0, EvalDuration = 0\<rparr>"

definition answer_with_speed :: "int64 \<Rightarrow> GenerateResponse" where
  "answer_with_speed n = fast_answer\<lparr>EvalCount := n\<rparr>"

definition installed_tags :: OllamaTagsResponse where
  "installed_tags =
     \<lparr>Models = [\<lparr>OllamaModel.Name = ''llama3.2:1b'', ModifiedAt = [], Size = 0\<rparr>,
                \<lparr>OllamaModel.Name = ''llama3.2:3b'', ModifiedAt = [], Size = 0\<rparr>]\<rparr>"

text \<open>A model whose every generation call is answered at once with the body \<open>{}\<close>.\<close>

definition zero_env :: model_env where
  "zero_env =
     \<lparr>tags = Some installed_tags, pull = PullPostError, generate = (\<lambda>k. Answer zero_answer 0)\<rparr>"

text \<open>A model with two answers, of 10 and 20 tokens per second, and then malformed bodies.\<close>

definition mixed_env :: model_env where
  "mixed_env =
     \<lparr>tags = Some installed_tags, pull = PullPostError,
      generate = (\<lambda>k. if k = 0 then Answer (answer_with_speed 10) 900
                       else if k = 1 then Answer (answer_with_speed 20) 1100
                       else ParseError ''unexpected end of JSON input'')\<rparr>"

definition zero_daemon :: "nat \<Rightarrow> model_env" where
  "zero_daemon k = zero_env"

text \<open>A model whose every generation call fails at sending the request.\<close>

definition failing_env :: model_env where
  "failing_env =
     \<lparr>tags = Some installed_tags, pull = PullPostError,
      generate = (\<lambda>k. SendError ''connection refused'')\<rparr>"

definition mixed_daemon :: "nat \<Rightarrow> model_env" where
  "mixed_daemon k = (if k = 0 then failing_env else mixed_env)"

text \<open>The summary of the model that is answered with \<open>{}\<close>, and its like in the basic driver.\<close>

definition zero_summary :: ModelSummary where
  "zero_summary = benchmark_model overlap_config testCases zero_env ''llama3.2:1b''"

definition zero_comparison :: ModelComparison where
  "zero_comparison =
     \<lparr>ModelComparison.ModelName = ''llama3.2:1b'', AvgTokensPerSec = 0, AvgTotalTimeMs = 0,
      TestResults =
        [runBenchmark_basic ''llama3.2:1b''
           \<lparr>TestCase_basic.Name = ''Mathematical Problem'',
            Prompt = ''If a train travels at 60 mph for 2.5 hours, how far does it travel? Show your work.'',
            Category = ''math'', ExpectedLen = 0\<rparr>
           (Answer zero_answer 0)]\<rparr>"

definition fast_comparison :: ModelComparison where
  "fast_comparison =
     \<lparr>ModelComparison.ModelName = ''gemma2:2b'', AvgTokensPerSec = 50, AvgTotalTimeMs = 1200,
      TestResults =
        [runBenchmark_basic ''gemma2:2b''
           \<lparr>TestCase_basic.Name = ''Mathematical Problem'',
            Prompt = ''If a train travels at 60 mph for 2.5 hours, how far does it travel? Show your work.'',
            Category = ''math'', ExpectedLen = 0\<rparr>
           (Answer fast_answer 1200)]\<rparr>"

text \<open>
  Seven models in the order of the catalog, each installed and answering every test with
  the same speed: 5, 5, 9, 9, 9, 9 and 7 tokens per second.
\<close>

definition speed_env :: "string \<Rightarrow> int64 \<Rightarrow> model_env" where
  "speed_env name n =
     \<lparr>tags = Some \<lparr>Models = [\<lparr>OllamaModel.Name = name, ModifiedAt = [], Size = 0\<rparr>]\<rparr>,
      pull = PullPostError, generate = (\<lambda>k. Answer (answer_with_speed n) 1000)\<rparr>"

definition tied_models :: "string list" where
  "tied_models =
     [''gemma2:2b'', ''gemma2:9b'', ''llama3.1:8b'', ''llama3.2:1b'', ''llama3.2:3b'',
      ''mistral:7b'', ''phi3:mini'']"

definition tied_speeds :: "int64 list" where
  "tied_speeds = [5, 5, 9, 9, 9, 9, 7]"

definition tied_daemon :: "nat \<Rightarrow> model_env" where
  "tied_daemon k = speed_env (tied_models ! k) (tied_speeds ! k)"

definition tied_summaries :: "ModelSummary list" where
  "tied_summaries = run_benchmarks keep_all_config tied_daemon tied_models"

section \<open>Properties of the footprint estimator\<close>

lemma Split_not_Nil: "Split s sep \<noteq> []"
  by (induction s) (auto split: list.splits)

lemma Split_colon_unfold:
  "Split s (CHR '':'') =
     until_colon s # (if has_colon s then Split (after_first_colon s) (CHR '':'') else [])"
  by (induction s) (auto split: list.splits simp: Split_not_Nil)

lemma extractModelSize_fields:
  "extractModelSize s =
     (if has_colon s then until_colon (after_first_colon s) else ''unknown'')"
proof (cases "has_colon s")
  case True
  have "Split s (CHR '':'') = until_colon s # Split (after_first_colon s) (CHR '':'')"
    using True by (subst Split_colon_unfold) simp
  moreover obtain rest where
    "Split (after_first_colon s) (CHR '':'') = until_colon (after_first_colon s) # rest"
    using Split_colon_unfold by blast
  ultimately show ?thesis
    using True by (simp add: extractModelSize_def Let_def)
next
  case False
  have "Split s (CHR '':'') = [until_colon s]"
    using False by (subst Split_colon_unfold) simp
  then show ?thesis
    using False by (simp add: extractModelSize_def Let_def)
qed

lemma has_colon_iff: "has_colon s \<longleftrightarrow> CHR '':'' \<in> set s"
  by (induction s) auto

lemma after_first_colon_append:
  "CHR '':'' \<notin> set x \<Longrightarrow> after_first_colon (x @ CHR '':'' # t) = t"
  by (induction x) auto

lemma extractModelSize_append:
  "CHR '':'' \<notin> set x \<Longrightarrow> extractModelSize (x @ CHR '':'' # t) = until_colon t"
  by (simp add: extractModelSize_fields has_colon_iff after_first_colon_append)

lemma estimateModelRAM_values:
  "estimateModelRAM m \<in> {1, 2, 3, 5, 6, 9, 16, 20, 40, 130, 220, 370}"
  by (simp add: estimateModelRAM_def Let_def)

lemma estimateModelRAM_sint: "0 < sint (estimateModelRAM m) \<and> sint (estimateModelRAM m) \<le> 370"
  using estimateModelRAM_values [of m] by auto

text \<open>
  C7, as the code has it.  The size tag that \<open>extractModelSize\<close> returns is the text between
  the first colon of the identifier and its second colon (or the end of the identifier when
  there is no second colon), and \<open>''unknown''\<close> for an identifier without a colon.  Whenever
  no token of the table occurs in that tag, \<open>estimateModelRAM\<close> returns the default 5.
\<close>

theorem extractModelSize_second_field_default:
  "extractModelSize s =
     (if has_colon s then until_colon (after_first_colon s) else ''unknown'')
   \<and> (\<not> list_ex (Contains (extractModelSize s)) size_tokens \<longrightarrow> estimateModelRAM s = 5)"
  by (simp add: extractModelSize_fields estimateModelRAM_def size_tokens_def Let_def)

theorem extractModelSize_second_field_default_witness:
  "extractModelSize ''mistral:latest'' = ''latest''
   \<and> \<not> list_ex (Contains (extractModelSize ''mistral:latest'')) size_tokens
   \<and> estimateModelRAM ''mistral:latest'' = 5"
  using extractModelSize_second_field_default [of "''mistral:latest''"]
  by (simp add: size_tokens_def)

text \<open>
  C7, as the claim has it, fails: for an identifier with two colons the tag is not the whole
  remainder behind the first colon.  The estimate follows the shorter tag: the remainder
  \<open>''a:70b''\<close> holds the token \<open>''70b''\<close>, the tag \<open>''a''\<close> holds no token.
\<close>

theorem extractModelSize_remainder_counterexample:
  "extractModelSize ''x:a:70b'' \<noteq> after_first_colon ''x:a:70b''
   \<and> extractModelSize ''x:a:70b'' = ''a''
   \<and> after_first_colon ''x:a:70b'' = ''a:70b''
   \<and> estimateModelRAM ''x:a:70b'' = 5"
  by (simp add: extractModelSize_def estimateModelRAM_def)

text \<open>
  C9.  For every family prefix \<open>x\<close> (a family name holds no colon: the colon separates it
  from the size tag), the estimates for \<open>x:70b\<close>, \<open>x:7b\<close> and \<open>x:1b\<close> are 40, 5 and 2, so
  they are strictly ordered.
\<close>

theorem estimateModelRAM_monotonic_sanity:
  assumes "CHR '':'' \<notin> set x"
  shows "estimateModelRAM (x @ '':1b'') <s estimateModelRAM (x @ '':7b'')
         \<and> estimateModelRAM (x @ '':7b'') <s estimateModelRAM (x @ '':70b'')
         \<and> estimateModelRAM (x @ '':70b'') = 40
         \<and> estimateModelRAM (x @ '':7b'') = 5
         \<and> estimateModelRAM (x @ '':1b'') = 2"
  using assms by (simp add: estimateModelRAM_def extractModelSize_append)

theorem estimateModelRAM_monotonic_sanity_witness:
  "CHR '':'' \<notin> set ''x''
   \<and> estimateModelRAM ''x:1b'' <s estimateModelRAM ''x:7b''
   \<and> estimateModelRAM ''x:7b'' <s estimateModelRAM ''x:70b''"
  using estimateModelRAM_monotonic_sanity [of "''x''"] by simp

section \<open>Properties of the admission filter\<close>

lemma filter_loop_filter:
  "filter_loop minFree available testable models =
     testable @ filter (\<lambda>model. admitted (estimateModelRAM model) minFree available) models"
  by (induction models arbitrary: testable) (simp_all add: Let_def)

lemma admitted_no_overflow:
  assumes "sint minFree \<le> 9223372036854775437"
  shows "admitted (estimateModelRAM m) minFree available \<longleftrightarrow>
           sint (estimateModelRAM m) + sint minFree \<le> sint available"
proof -
  have lo: "- (2 ^ 63) \<le> sint minFree"
    using sint_ge [of minFree] by simp
  have "sint (estimateModelRAM m + minFree) = sint (estimateModelRAM m) + sint minFree"
    using estimateModelRAM_sint [of m] assms lo
    by (simp add: sint_word_ariths signed_take_bit_int_eq_self)
  then show ?thesis
    by (simp add: admitted_def word_sle_eq)
qed

text \<open>
  C4.  With the flag \<open>skip_if_insufficient_resources\<close> set, \<open>filterModelsByResources\<close> keeps
  exactly the variants with \<open>estimateModelRAM variant + min_free_ram_gb \<le> available_gb\<close>, in
  the order of the catalog; the sum is that of the code, on \<open>int64\<close>, and it is the sum of
  the integers whenever \<open>min_free_ram_gb\<close> is at most \<open>2^63 - 371\<close>.  With 16 GB available
  and 4 GB to keep free, an estimate of 9 GB is admitted and one of 13 GB is rejected.  With
  the flag not set, the catalog is returned as it is.
\<close>

theorem filterModelsByResources_admission:
  "(SkipIfInsufficientResources (TestSettings config) \<longrightarrow>
      filterModelsByResources models sysInfo config =
        filter (\<lambda>model. admitted (estimateModelRAM model) (MinFreeRAMGB (ResourceLimits config))
                          (AvailableRAMGB sysInfo)) models)
   \<and> (sint (MinFreeRAMGB (ResourceLimits config)) \<le> 2 ^ 63 - 371 \<longrightarrow>
        (admitted (estimateModelRAM model) (MinFreeRAMGB (ResourceLimits config))
             (AvailableRAMGB sysInfo) \<longleftrightarrow>
         sint (estimateModelRAM model) + sint (MinFreeRAMGB (ResourceLimits config))
           \<le> sint (AvailableRAMGB sysInfo)))
   \<and> admitted 9 4 16 \<and> \<not> admitted 13 4 16
   \<and> (\<not> SkipIfInsufficientResources (TestSettings config) \<longrightarrow>
        filterModelsByResources models sysInfo config = models)"
proof -
  have "sint (MinFreeRAMGB (ResourceLimits config)) \<le> 2 ^ 63 - 371 \<Longrightarrow>
        admitted (estimateModelRAM model) (MinFreeRAMGB (ResourceLimits config))
             (AvailableRAMGB sysInfo) \<longleftrightarrow>
         sint (estimateModelRAM model) + sint (MinFreeRAMGB (ResourceLimits config))
           \<le> sint (AvailableRAMGB sysInfo)"
    using admitted_no_overflow [of "MinFreeRAMGB (ResourceLimits config)" model] by simp
  moreover have "admitted 9 4 16 \<and> \<not> admitted 13 4 16"
    by (simp add: admitted_def)
  ultimately show ?thesis
    by (simp add: filterModelsByResources_def filter_loop_filter)
qed

theorem filterModelsByResources_admission_witness:
  "SkipIfInsufficientResources (TestSettings overlap_config)
   \<and> sint (MinFreeRAMGB (ResourceLimits overlap_config)) \<le> 2 ^ 63 - 371
   \<and> filterModelsByResources [''qwen2.5:14b'', ''llama3.1:70b''] sys16 overlap_config
       = [''qwen2.5:14b'']
   \<and> \<not> SkipIfInsufficientResources (TestSettings keep_all_config)
   \<and> filterModelsByResources [''qwen2.5:14b'', ''llama3.1:70b''] sys16 keep_all_config
       = [''qwen2.5:14b'', ''llama3.1:70b'']"
  using
    filterModelsByResources_admission
      [of overlap_config "[''qwen2.5:14b'', ''llama3.1:70b'']" sys16 "''llama3.1:70b''"]
    filterModelsByResources_admission
      [of keep_all_config "[''qwen2.5:14b'', ''llama3.1:70b'']" sys16 "''llama3.1:70b''"]
  by (simp add: overlap_config_def keep_all_config_def sys16_def admitted_def
      estimateModelRAM_def extractModelSize_def)

section \<open>Properties of the variant catalog\<close>

text \<open>
  The catalog does not depend on the order in which the map of installed names is iterated:
  any list with the same elements as the keys gives the same sorted result.  The loop over
  the reference variants never adds a second copy of a name.
\<close>

lemma add_installed_filter:
  "add_installed models family keys = models @ filter (\<lambda>n. HasPrefix n family) keys"
  by (induction keys arbitrary: models) simp_all

lemma add_variants_mset:
  "mset models = mset models' \<Longrightarrow>
     mset (add_variants models vs) = mset (add_variants models' vs)"
proof (induction vs arbitrary: models models')
  case Nil
  then show ?case by simp
next
  case (Cons v vs)
  have "set models = set models'"
    using Cons.prems by (rule mset_eq_setD)
  then have "mset (if v \<in> set models then models else models @ [v])
      = mset (if v \<in> set models' then models' else models' @ [v])"
    using Cons.prems by simp
  from Cons.IH [OF this] show ?case
    by simp
qed

lemma add_variants_distinct:
  "distinct models \<Longrightarrow> distinct (add_variants models vs)"
  by (induction vs arbitrary: models) simp_all

lemma family_step_mset:
  assumes "mset keys = mset keys'" "mset models = mset models'"
  shows "mset (family_step keys models family) = mset (family_step keys' models' family)"
proof -
  have m1: "mset (add_installed models (LLMFamily.Name family) keys)
      = mset (add_installed models' (LLMFamily.Name family) keys')"
    using assms by (simp add: add_installed_filter mset_filter)
  have m2: "mset (add_variants (add_installed models (LLMFamily.Name family) keys)
                   (getCommonVariants (LLMFamily.Name family)))
      = mset (add_variants (add_installed models' (LLMFamily.Name family) keys')
                   (getCommonVariants (LLMFamily.Name family)))"
    by (rule add_variants_mset) (rule m1)
  show ?thesis
    unfolding family_step_def Let_def using assms(2) m1 m2 by auto
qed

lemma foldl_family_step_mset:
  assumes "mset keys = mset keys'" "mset models = mset models'"
  shows "mset (foldl (family_step keys) models families)
       = mset (foldl (family_step keys') models' families)"
  using assms(2)
proof (induction families arbitrary: models models')
  case Nil
  then show ?case by simp
next
  case (Cons f fs)
  show ?case
    using Cons.IH [OF family_step_mset [OF assms(1) Cons.prems]] by simp
qed

lemma getOllamaLibraryModels_any_order:
  assumes "mset keys = mset (remdups (map OllamaModel.Name (Models tagsResp)))"
  shows "getOllamaLibraryModels config (Some tagsResp)
       = sort (foldl (family_step keys) [] (LLMFamilies config))"
proof -
  have "mset (foldl (family_step keys) [] (LLMFamilies config))
      = mset (foldl (family_step (remdups (map OllamaModel.Name (Models tagsResp)))) []
                (LLMFamilies config))"
    using assms by (intro foldl_family_step_mset) simp_all
  then show ?thesis
    unfolding getOllamaLibraryModels_def option.case
    by (metis properties_for_sort sorted_sort mset_sort)
qed

lemma getOllamaLibraryModels_sorted: "sorted (getOllamaLibraryModels config resp)"
  by (simp add: getOllamaLibraryModels_def split: option.splits)

text \<open>
  C1.  The catalog is sorted, but an identifier can occur in it twice: with the two enabled
  families \<open>qwen2\<close> and \<open>qwen2.5\<close> and the one installed model \<open>qwen2.5:7b\<close>, both families
  match the installed name as a prefix and each appends it.
\<close>

theorem getOllamaLibraryModels_duplicate:
  "getOllamaLibraryModels overlap_config (Some overlap_tags) = [''qwen2.5:7b'', ''qwen2.5:7b'']
   \<and> \<not> distinct (getOllamaLibraryModels overlap_config (Some overlap_tags))"
  by (simp add: getOllamaLibraryModels_def overlap_config_def overlap_tags_def family_step_def
      HasPrefix_def)

section \<open>Properties of the pull\<close>

lemma pull_loop_spec:
  "pull_loop objects e = (list_ex status_contains_success objects \<or> e = EOF)"
  by (induction objects) (auto split: status_value.splits stream_end.splits)

lemma pull_loop_basic_member:
  "pull_loop_basic objects e = (StatusString ''success'' \<in> set objects)"
  by (induction objects) auto

text \<open>
  C3, as the code has it.  \<open>pullModel\<close> of \<open>ollama_smart_benchmark.go\<close> returns success exactly
  when some status that it reads contains \<open>success\<close> or the stream ends without an error; a
  failed request and any error of the decoder other than the end of the stream make it
  return failure.  \<open>pullModel\<close> of \<open>ollama_benchmark.go\<close> returns success exactly when some
  status that it reads is the string \<open>success\<close>; the end of the stream is a failure there.
\<close>

theorem pullModel_outcome:
  "pullModel model call = pull_succeeds_spec call
   \<and> pullModel_basic model call =
       (case call of
          PullPostError \<Rightarrow> False
        | PullStream objects e \<Rightarrow> (StatusString ''success'' \<in> set objects))"
  by (simp add: pullModel_def pullModel_basic_def pull_succeeds_spec_def pull_loop_spec
      pull_loop_basic_member split: pull_call.splits)

theorem pullModel_outcome_witness:
  "pullModel ''llama3.2:1b'' (PullStream [StatusString ''pulling manifest''] EOF)
   \<and> \<not> pullModel ''llama3.2:1b'' (PullStream [StatusString ''pulling manifest''] DecodeError)
   \<and> pullModel ''llama3.2:1b'' (PullStream [NoStatus, StatusString ''pull success''] DecodeError)
   \<and> \<not> pullModel ''llama3.2:1b'' PullPostError
   \<and> pullModel_basic ''llama3.2:1b'' (PullStream [StatusString ''success''] EOF)
   \<and> \<not> pullModel_basic ''llama3.2:1b'' (PullStream [StatusString ''pull success''] EOF)"
  using
    pullModel_outcome [of "''llama3.2:1b''" "PullStream [StatusString ''pulling manifest''] EOF"]
    pullModel_outcome
      [of "''llama3.2:1b''" "PullStream [StatusString ''pulling manifest''] DecodeError"]
    pullModel_outcome
      [of "''llama3.2:1b''" "PullStream [NoStatus, StatusString ''pull success''] DecodeError"]
    pullModel_outcome [of "''llama3.2:1b''" PullPostError]
    pullModel_outcome [of "''llama3.2:1b''" "PullStream [StatusString ''success''] EOF"]
    pullModel_outcome [of "''llama3.2:1b''" "PullStream [StatusString ''pull success''] EOF"]
  by (simp add: pull_succeeds_spec_def)

text \<open>
  C3, as the claim has it, fails for \<open>pullModel\<close> of \<open>ollama_benchmark.go\<close>: a stream that ends
  without an error and without the status \<open>success\<close> is a failure there, and so is a status
  that contains \<open>success\<close> without being equal to it.
\<close>

theorem pullModel_basic_counterexample:
  "pull_succeeds_spec (PullStream [StatusString ''pulling manifest''] EOF)
   \<and> \<not> pullModel_basic ''llama3.2:1b'' (PullStream [StatusString ''pulling manifest''] EOF)
   \<and> pull_succeeds_spec (PullStream [StatusString ''pull success''] DecodeError)
   \<and> \<not> pullModel_basic ''llama3.2:1b'' (PullStream [StatusString ''pull success''] DecodeError)"
  by (simp add: pull_succeeds_spec_def pullModel_basic_def)

section \<open>Properties of the benchmark executor\<close>

lemma sint_add_no_overflow:
  fixes a b :: int64
  assumes "0 <s a" "0 <s b" "sint a + sint b < 2 ^ 63"
  shows "sint (a + b) = sint a + sint b"
proof -
  have "0 < sint a" "0 < sint b"
    using assms by (simp_all add: word_sless_alt)
  then show ?thesis
    using assms(3) by (simp add: sint_word_ariths signed_take_bit_int_eq_self)
qed

text \<open>
  C8.  For every decoded generation answer, \<open>tokens_per_second\<close> is
  \<open>eval_count / eval_duration * 1e9\<close> when \<open>eval_duration\<close> is positive (the divisor is then
  not zero) and 0 otherwise, and \<open>time_to_first_token_ms\<close> is
  \<open>(load_duration + prompt_eval_duration) / 1e6\<close> when both durations are positive and 0
  otherwise, in both drivers.  The sum of the two durations is the \<open>int64\<close> sum of the code;
  it is the sum of the integers unless that reaches \<open>2^63\<close>.
\<close>

theorem runBenchmark_metrics:
  "TokensPerSecond (runBenchmark model test (Answer genResp elapsed)) =
     (if 0 <s EvalDuration genResp
      then real_of_int (sint (EvalCount genResp)) / real_of_int (sint (EvalDuration genResp))
             * 10 ^ 9
      else 0)
   \<and> TimeToFirstToken (runBenchmark model test (Answer genResp elapsed)) =
     (if 0 <s LoadDuration genResp \<and> 0 <s PromptEvalDuration genResp
      then real_of_int (sint (LoadDuration genResp + PromptEvalDuration genResp)) / 10 ^ 6
      else 0)
   \<and> BenchmarkResult_basic.TokensPerSecond
         (runBenchmark_basic model test' (Answer genResp elapsed)) =
     (if 0 <s EvalDuration genResp
      then real_of_int (sint (EvalCount genResp)) / real_of_int (sint (EvalDuration genResp))
             * 10 ^ 9
      else 0)
   \<and> BenchmarkResult_basic.TimeToFirstToken
         (runBenchmark_basic model test' (Answer genResp elapsed)) =
     (if 0 <s LoadDuration genResp \<and> 0 <s PromptEvalDuration genResp
      then real_of_int (sint (LoadDuration genResp + PromptEvalDuration genResp)) / 10 ^ 6
      else 0)
   \<and> (0 <s EvalDuration genResp \<longrightarrow> sint (EvalDuration genResp) > 0)
   \<and> (0 <s LoadDuration genResp \<and> 0 <s PromptEvalDuration genResp
        \<and> sint (LoadDuration genResp) + sint (PromptEvalDuration genResp) < 2 ^ 63 \<longrightarrow>
        sint (LoadDuration genResp + PromptEvalDuration genResp) =
          sint (LoadDuration genResp) + sint (PromptEvalDuration genResp))"
  by (simp add: runBenchmark_def runBenchmark_basic_def Let_def sint_add_no_overflow
      word_sless_alt)

theorem runBenchmark_metrics_witness:
  "0 <s EvalDuration fast_answer
   \<and> 0 <s LoadDuration fast_answer \<and> 0 <s PromptEvalDuration fast_answer
   \<and> sint (LoadDuration fast_answer) + sint (PromptEvalDuration fast_answer) < 2 ^ 63
   \<and> TokensPerSecond (runBenchmark ''llama3.2:1b'' (hd testCases) (Answer fast_answer 1200)) = 50
   \<and> TimeToFirstToken (runBenchmark ''llama3.2:1b'' (hd testCases) (Answer fast_answer 1200)) = 5
   \<and> \<not> 0 <s EvalDuration zero_answer
   \<and> TokensPerSecond (runBenchmark ''llama3.2:1b'' (hd testCases) (Answer zero_answer 1200)) = 0
   \<and> TimeToFirstToken (runBenchmark ''llama3.2:1b'' (hd testCases) (Answer zero_answer 1200)) = 0"
  using runBenchmark_metrics [of "''llama3.2:1b''" "hd testCases" fast_answer 1200]
    runBenchmark_metrics [of "''llama3.2:1b''" "hd testCases" zero_answer 1200]
  by (simp add: fast_answer_def zero_answer_def word_sless_alt)

lemma runBenchmark_failed:
  "failed_call call \<Longrightarrow>
     \<not> Success (runBenchmark model test call) \<and> Error (runBenchmark model test call) \<noteq> []"
  by (cases call) (simp_all add: runBenchmark_def)

lemma upt_length_Cons: "[k..<k + length (x # xs)] = k # [Suc k..<Suc k + length xs]"
  by (simp add: upt_rec)

lemma test_loop_results:
  "results (test_loop model gen k acc tests) =
     results acc
       @ map (\<lambda>(i, t). runBenchmark model t (gen i)) (zip [k..<k + length tests] tests)"
proof (induction tests arbitrary: k acc)
  case Nil
  then show ?case by simp
next
  case (Cons t ts)
  show ?case
    unfolding upt_length_Cons using Cons.IH by (simp add: Let_def)
qed

lemma test_loop_totals:
  "totalTPS (test_loop model gen k acc tests) =
     totalTPS acc + sum_list (map TokensPerSecond
        (filter Success (map (\<lambda>(i, t). runBenchmark model t (gen i))
           (zip [k..<k + length tests] tests))))
   \<and> totalTime (test_loop model gen k acc tests) =
     totalTime acc + sum_list (map TotalTimeMs
        (filter Success (map (\<lambda>(i, t). runBenchmark model t (gen i))
           (zip [k..<k + length tests] tests))))
   \<and> successCount (test_loop model gen k acc tests) =
     successCount acc + length
        (filter Success (map (\<lambda>(i, t). runBenchmark model t (gen i))
           (zip [k..<k + length tests] tests)))"
proof (induction tests arbitrary: k acc)
  case Nil
  then show ?case by simp
next
  case (Cons t ts)
  show ?case
    unfolding upt_length_Cons using Cons.IH by (simp add: Let_def)
qed

lemma model_loop_map:
  "model_loop config tests daemon k summaries models =
     summaries @ map (\<lambda>(i, m). benchmark_model config tests (daemon i) m)
                   (zip [k..<k + length models] models)"
proof (induction models arbitrary: k summaries)
  case Nil
  then show ?case by simp
next
  case (Cons m ms)
  show ?case
    unfolding upt_length_Cons using Cons.IH by simp
qed

lemma benchmark_model_cases:
  "benchmark_model config tests env model =
     (if checkModelInstalled model (tags env)
         \<or> AutoPullModels (TestSettings config) \<and> pullModel model (pull env)
      then summarize model
             (test_loop model (generate env) 0
                \<lparr>results = [], totalTPS = 0, totalTime = 0, successCount = 0\<rparr> tests)
      else skipped model
             (if AutoPullModels (TestSettings config) then ''Failed to pull model''
              else ''Model not installed''))"
  by (simp add: benchmark_model_def Let_def)

lemma benchmark_model_results:
  "TestResults (benchmark_model config tests env model) =
     (if checkModelInstalled model (tags env)
         \<or> AutoPullModels (TestSettings config) \<and> pullModel model (pull env)
      then map (\<lambda>(k, t). runBenchmark model t (generate env k)) (numbered tests)
      else [])"
  by (simp add: benchmark_model_cases Let_def summarize_def skipped_def test_loop_results
      numbered_def)

lemma summarize_test_loop:
  fixes s :: ModelSummary
  assumes "s = summarize model
             (test_loop model gen 0
                \<lparr>results = [], totalTPS = 0, totalTime = 0, successCount = 0\<rparr> tests)"
  shows "AvgTokensPerSec s = mean (map TokensPerSecond (successes s))
       \<and> AvgTotalTimeMs s = mean (map TotalTimeMs (successes s))
       \<and> CanRun s = (successes s \<noteq> [])
       \<and> length (TestResults s) = length tests"
proof -
  define rs where
    "rs = map (\<lambda>(i, t). runBenchmark model t (gen i)) (zip [0..<0 + length tests] tests)"
  define acc where
    "acc = test_loop model gen 0
             \<lparr>results = [], totalTPS = 0, totalTime = 0, successCount = 0\<rparr> tests"
  have r: "results acc = rs"
    unfolding acc_def rs_def by (subst test_loop_results) simp
  have t: "totalTPS acc = sum_list (map TokensPerSecond (filter Success rs))"
    "totalTime acc = sum_list (map TotalTimeMs (filter Success rs))"
    "successCount acc = length (filter Success rs)"
    unfolding acc_def rs_def
    using test_loop_totals
      [of model gen 0 "\<lparr>results = [], totalTPS = 0, totalTime = 0, successCount = 0\<rparr>" tests]
    by simp_all
  have s: "s = summarize model acc"
    using assms acc_def by simp
  have succ: "successes s = filter Success rs"
    by (simp add: s successes_def summarize_def Let_def r)
  have len: "length rs = length tests"
    by (simp add: rs_def)
  show ?thesis
    unfolding succ by (simp add: s summarize_def Let_def r t mean_def len)
qed

lemma benchmark_model_summary:
  fixes s :: ModelSummary
  assumes "s = benchmark_model config tests env model"
  shows "AvgTokensPerSec s = mean (map TokensPerSecond (successes s))
       \<and> AvgTotalTimeMs s = mean (map TotalTimeMs (successes s))
       \<and> CanRun s = (successes s \<noteq> [])
       \<and> length (TestResults s) \<le> length tests"
proof (cases "checkModelInstalled model (tags env)
         \<or> AutoPullModels (TestSettings config) \<and> pullModel model (pull env)")
  case True
  have "benchmark_model config tests env model = summarize model
             (test_loop model (generate env) 0
                \<lparr>results = [], totalTPS = 0, totalTime = 0, successCount = 0\<rparr> tests)"
    by (subst benchmark_model_cases) (use True in auto)
  then have "s = summarize model
             (test_loop model (generate env) 0
                \<lparr>results = [], totalTPS = 0, totalTime = 0, successCount = 0\<rparr> tests)"
    using assms by simp
  from summarize_test_loop [OF this] show ?thesis
    by simp
next
  case False
  have "benchmark_model config tests env model = skipped model
             (if AutoPullModels (TestSettings config) then ''Failed to pull model''
              else ''Model not installed'')"
    by (subst benchmark_model_cases) (use False in auto)
  then show ?thesis
    unfolding assms by (simp add: skipped_def successes_def mean_def)
qed

lemma run_benchmarks_map:
  "run_benchmarks config daemon testableModels =
     map (\<lambda>(k, m). benchmark_model config testCases (daemon k) m) (numbered testableModels)"
  by (simp add: run_benchmarks_def model_loop_map numbered_def)

lemma mixed_run:
  "run_benchmarks overlap_config mixed_daemon [''llama3.2:1b'', ''llama3.2:3b'']
    = [benchmark_model overlap_config testCases failing_env ''llama3.2:1b'',
       benchmark_model overlap_config testCases mixed_env ''llama3.2:3b'']"
  by (simp add: run_benchmarks_map numbered_def mixed_daemon_def upt_rec)

lemma mixed_speeds:
  "map TokensPerSecond
     (successes (benchmark_model overlap_config testCases mixed_env ''llama3.2:3b'')) = [10, 20]"
  by (simp add: successes_def benchmark_model_results numbered_def testCases_def upt_rec
      mixed_env_def checkModelInstalled_def installed_tags_def runBenchmark_def Let_def
      answer_with_speed_def fast_answer_def word_sless_alt)

lemma mixed_outcomes:
  "map Success (TestResults (benchmark_model overlap_config testCases mixed_env ''llama3.2:3b''))
     = [True, True, False, False, False]
   \<and> map Error (TestResults (benchmark_model overlap_config testCases mixed_env ''llama3.2:3b''))
     = ['''', '''', ''Failed to parse response: unexpected end of JSON input'',
        ''Failed to parse response: unexpected end of JSON input'',
        ''Failed to parse response: unexpected end of JSON input'']"
  by (simp add: benchmark_model_results numbered_def testCases_def upt_rec
      mixed_env_def checkModelInstalled_def installed_tags_def runBenchmark_def Let_def)

lemma failing_successes:
  "successes (benchmark_model overlap_config testCases failing_env ''llama3.2:1b'') = []"
  by (simp add: successes_def benchmark_model_results numbered_def testCases_def upt_rec
      failing_env_def checkModelInstalled_def installed_tags_def runBenchmark_def Let_def)

lemma zero_run:
  "map TokensPerSecond
     (successes (benchmark_model overlap_config testCases zero_env ''llama3.2:1b''))
     = [0, 0, 0, 0, 0]
   \<and> map TotalTimeMs
     (successes (benchmark_model overlap_config testCases zero_env ''llama3.2:1b''))
     = [0, 0, 0, 0, 0]"
  by (simp add: successes_def benchmark_model_results numbered_def testCases_def upt_rec
      zero_env_def checkModelInstalled_def installed_tags_def runBenchmark_def Let_def
      zero_answer_def word_sless_alt)

text \<open>
  C5, as the code has it.  For every summary of the run, the two averages are the arithmetic
  means over the successful results only; both are 0 when there is no successful result;
  \<open>can_run\<close> holds exactly when some result succeeded; and there are at most as many results
  as the battery has test cases.
\<close>

theorem summary_aggregates:
  assumes "s \<in> set (run_benchmarks config daemon testableModels)"
  shows "AvgTokensPerSec s = mean (map TokensPerSecond (successes s))
       \<and> AvgTotalTimeMs s = mean (map TotalTimeMs (successes s))
       \<and> (successes s = [] \<longrightarrow> AvgTokensPerSec s = 0 \<and> AvgTotalTimeMs s = 0)
       \<and> CanRun s = (successes s \<noteq> [])
       \<and> length (TestResults s) \<le> length testCases"
proof -
  from assms obtain k m where "s = benchmark_model config testCases (daemon k) m"
    unfolding run_benchmarks_map by auto
  from benchmark_model_summary [OF this] show ?thesis
    by (simp add: mean_def)
qed

theorem summary_aggregates_witness:
  "benchmark_model overlap_config testCases mixed_env ''llama3.2:3b''
     \<in> set (run_benchmarks overlap_config mixed_daemon [''llama3.2:1b'', ''llama3.2:3b''])
   \<and> map TokensPerSecond
       (successes (benchmark_model overlap_config testCases mixed_env ''llama3.2:3b''))
       = [10, 20]
   \<and> length (TestResults (benchmark_model overlap_config testCases mixed_env ''llama3.2:3b''))
       = 5
   \<and> AvgTokensPerSec (benchmark_model overlap_config testCases mixed_env ''llama3.2:3b'') = 15
   \<and> CanRun (benchmark_model overlap_config testCases mixed_env ''llama3.2:3b'')
   \<and> benchmark_model overlap_config testCases failing_env ''llama3.2:1b''
     \<in> set (run_benchmarks overlap_config mixed_daemon [''llama3.2:1b'', ''llama3.2:3b''])
   \<and> successes (benchmark_model overlap_config testCases failing_env ''llama3.2:1b'') = []
   \<and> AvgTokensPerSec (benchmark_model overlap_config testCases failing_env ''llama3.2:1b'') = 0
   \<and> AvgTotalTimeMs (benchmark_model overlap_config testCases failing_env ''llama3.2:1b'') = 0
   \<and> \<not> CanRun (benchmark_model overlap_config testCases failing_env ''llama3.2:1b'')"
proof -
  have len: "length
      (TestResults (benchmark_model overlap_config testCases mixed_env ''llama3.2:3b'')) = 5"
    using arg_cong [OF conjunct1 [OF mixed_outcomes], of length] by simp
  have ne: "successes (benchmark_model overlap_config testCases mixed_env ''llama3.2:3b'')
      \<noteq> []"
    using mixed_speeds by auto
  show ?thesis
    using
      summary_aggregates
        [of "benchmark_model overlap_config testCases mixed_env ''llama3.2:3b''"
            overlap_config mixed_daemon "[''llama3.2:1b'', ''llama3.2:3b'']"]
      summary_aggregates
        [of "benchmark_model overlap_config testCases failing_env ''llama3.2:1b''"
            overlap_config mixed_daemon "[''llama3.2:1b'', ''llama3.2:3b'']"]
      len ne
    by (simp add: mixed_run mixed_speeds failing_successes mean_def)
qed

text \<open>
  C5, as the claim has it, fails in one direction: the averages can both be 0 although
  results succeeded.  A model whose five calls are each answered within a millisecond by a
  body without the fields of a generation answer has five successful results, each with 0
  tokens per second and 0 ms.
\<close>

theorem zero_averages_counterexample:
  "benchmark_model overlap_config testCases zero_env ''llama3.2:1b''
     \<in> set (run_benchmarks overlap_config zero_daemon [''llama3.2:1b''])
   \<and> AvgTokensPerSec (benchmark_model overlap_config testCases zero_env ''llama3.2:1b'') = 0
   \<and> AvgTotalTimeMs (benchmark_model overlap_config testCases zero_env ''llama3.2:1b'') = 0
   \<and> length (successes (benchmark_model overlap_config testCases zero_env ''llama3.2:1b'')) = 5
   \<and> CanRun (benchmark_model overlap_config testCases zero_env ''llama3.2:1b'')"
proof -
  have run: "run_benchmarks overlap_config zero_daemon [''llama3.2:1b'']
      = [benchmark_model overlap_config testCases zero_env ''llama3.2:1b'']"
    by (simp add: run_benchmarks_map numbered_def zero_daemon_def upt_rec)
  have len: "length
      (successes (benchmark_model overlap_config testCases zero_env ''llama3.2:1b'')) = 5"
    using arg_cong [OF conjunct1 [OF zero_run], of length] by simp
  then have ne: "successes (benchmark_model overlap_config testCases zero_env ''llama3.2:1b'')
      \<noteq> []"
    by auto
  show ?thesis
    using benchmark_model_summary [OF refl, of overlap_config testCases zero_env "''llama3.2:1b''"]
      len ne
    by (simp add: run zero_run mean_def)
qed

text \<open>
  C6.  A generation call that fails at building the request, at sending it, at reading the
  body or at decoding it yields one result with \<open>success = false\<close> and an error text that is
  not empty.  The results of a model that runs are one per test case of the battery, in its
  order, whatever the outcomes of the calls; and the summaries of the run are one per
  testable model, in their order, whatever the outcomes for the models before.
\<close>

theorem failed_call_does_not_stop_the_run:
  "(failed_call call \<longrightarrow>
      \<not> Success (runBenchmark model test call) \<and> Error (runBenchmark model test call) \<noteq> [])
   \<and> (checkModelInstalled model (tags env)
        \<or> AutoPullModels (TestSettings config) \<and> pullModel model (pull env) \<longrightarrow>
       TestResults (benchmark_model config tests env model) =
         map (\<lambda>(k, t). runBenchmark model t (generate env k)) (numbered tests))
   \<and> run_benchmarks config daemon testableModels =
       map (\<lambda>(k, m). benchmark_model config testCases (daemon k) m) (numbered testableModels)"
  using runBenchmark_failed [of call model test]
  by (simp add: benchmark_model_results run_benchmarks_map)

theorem failed_call_does_not_stop_the_run_witness:
  "failed_call (generate mixed_env 2)
   \<and> checkModelInstalled ''llama3.2:3b'' (tags mixed_env)
   \<and> \<not> Success (runBenchmark ''llama3.2:3b'' (testCases ! 2) (generate mixed_env 2))
   \<and> Error (runBenchmark ''llama3.2:3b'' (testCases ! 2) (generate mixed_env 2))
       = ''Failed to parse response: unexpected end of JSON input''
   \<and> length (TestResults (benchmark_model overlap_config testCases mixed_env ''llama3.2:3b''))
       = 5
   \<and> map CanRun (run_benchmarks overlap_config mixed_daemon [''llama3.2:1b'', ''llama3.2:3b''])
       = [False, True]"
proof -
  have can: "CanRun (benchmark_model overlap_config testCases mixed_env ''llama3.2:3b'')"
    "\<not> CanRun (benchmark_model overlap_config testCases failing_env ''llama3.2:1b'')"
    using
      benchmark_model_summary [OF refl, of overlap_config testCases mixed_env "''llama3.2:3b''"]
      benchmark_model_summary [OF refl, of overlap_config testCases failing_env "''llama3.2:1b''"]
      mixed_speeds failing_successes
    by auto
  have len: "length
      (TestResults (benchmark_model overlap_config testCases mixed_env ''llama3.2:3b'')) = 5"
    using arg_cong [OF conjunct1 [OF mixed_outcomes], of length] by simp
  have inst: "checkModelInstalled ''llama3.2:3b'' (tags mixed_env)"
    by (simp add: checkModelInstalled_def mixed_env_def installed_tags_def)
  have failed: "failed_call (generate mixed_env 2)"
    by (simp add: mixed_env_def)
  have err: "Error (runBenchmark ''llama3.2:3b'' (testCases ! 2) (generate mixed_env 2))
      = ''Failed to parse response: unexpected end of JSON input''"
    by (simp add: mixed_env_def runBenchmark_def)
  have "\<not> Success (runBenchmark ''llama3.2:3b'' (testCases ! 2) (generate mixed_env 2))"
    using
      failed_call_does_not_stop_the_run
        [of "generate mixed_env 2" "''llama3.2:3b''" "testCases ! 2" mixed_env overlap_config
            testCases mixed_daemon "[''llama3.2:1b'', ''llama3.2:3b'']"]
      failed
    by blast
  moreover have "map CanRun
      (run_benchmarks overlap_config mixed_daemon [''llama3.2:1b'', ''llama3.2:3b''])
      = [False, True]"
    using can by (simp add: mixed_run)
  ultimately show ?thesis
    using failed inst err len by simp
qed

section \<open>Properties of the aggregator and ranker\<close>

lemma best_of_results_keep:
  assumes "\<forall>r \<in> set rs. BenchmarkResult.Category r = category \<and> Success r \<longrightarrow>
             TokensPerSecond r \<le> snd b"
  shows "best_of_results category name b rs = b"
  using assms
proof (induction rs arbitrary: b)
  case Nil
  then show ?case by simp
next
  case (Cons r rs)
  obtain bm bs where b: "b = (bm, bs)"
    by (cases b)
  have "\<not> (BenchmarkResult.Category r = category \<and> Success r \<and> TokensPerSecond r > bs)"
    using Cons.prems b by auto
  then show ?case
    using Cons.IH [of "(bm, bs)"] Cons.prems b by auto
qed

lemma best_of_summaries_keep:
  assumes "\<forall>s \<in> set ss. \<forall>r \<in> set (TestResults s).
             BenchmarkResult.Category r = category \<and> Success r \<longrightarrow> TokensPerSecond r \<le> snd b"
  shows "best_of_summaries category b ss = b"
  using assms by (induction ss arbitrary: b) (simp_all add: best_of_results_keep)

lemma best_of_results_positive:
  assumes "b = ('''', 0) \<or> 0 < snd b"
  shows "best_of_results category name b rs = ('''', 0)
         \<or> 0 < snd (best_of_results category name b rs)"
  using assms
proof (induction rs arbitrary: b)
  case Nil
  then show ?case by simp
next
  case (Cons r rs)
  obtain bm bs where b: "b = (bm, bs)"
    by (cases b)
  have "0 \<le> bs"
    using Cons.prems b by auto
  then show ?case
    using Cons.IH [of "(name, TokensPerSecond r)"] Cons.IH [of "(bm, bs)"] Cons.prems b
    by auto
qed

lemma best_of_summaries_positive:
  assumes "b = ('''', 0) \<or> 0 < snd b"
  shows "best_of_summaries category b ss = ('''', 0)
         \<or> 0 < snd (best_of_summaries category b ss)"
  using assms
proof (induction ss arbitrary: b)
  case Nil
  then show ?case by simp
next
  case (Cons s ss)
  show ?case
    using Cons.IH [OF best_of_results_positive [OF Cons.prems]] by simp
qed

lemma best_of_results_basic_keep:
  assumes "\<forall>r \<in> set rs. BenchmarkResult_basic.Category r = category
             \<and> BenchmarkResult_basic.Success r \<longrightarrow>
             BenchmarkResult_basic.TokensPerSecond r \<le> snd b"
  shows "best_of_results_basic category name b rs = b"
  using assms
proof (induction rs arbitrary: b)
  case Nil
  then show ?case by simp
next
  case (Cons r rs)
  obtain bm bs where b: "b = (bm, bs)"
    by (cases b)
  have "\<not> (BenchmarkResult_basic.Category r = category \<and> BenchmarkResult_basic.Success r
           \<and> BenchmarkResult_basic.TokensPerSecond r > bs)"
    using Cons.prems b by auto
  then show ?case
    using Cons.IH [of "(bm, bs)"] Cons.prems b by auto
qed

lemma best_of_comparisons_keep:
  assumes "\<forall>c \<in> set cs. \<forall>r \<in> set (ModelComparison.TestResults c).
             BenchmarkResult_basic.Category r = category \<and> BenchmarkResult_basic.Success r \<longrightarrow>
             BenchmarkResult_basic.TokensPerSecond r \<le> snd b"
  shows "best_of_comparisons category b cs = b"
  using assms by (induction cs arbitrary: b) (simp_all add: best_of_results_basic_keep)

lemma best_of_results_basic_positive:
  assumes "b = ('''', 0) \<or> 0 < snd b"
  shows "best_of_results_basic category name b rs = ('''', 0)
         \<or> 0 < snd (best_of_results_basic category name b rs)"
  using assms
proof (induction rs arbitrary: b)
  case Nil
  then show ?case by simp
next
  case (Cons r rs)
  obtain bm bs where b: "b = (bm, bs)"
    by (cases b)
  have "0 \<le> bs"
    using Cons.prems b by auto
  then show ?case
    using Cons.IH [of "(name, BenchmarkResult_basic.TokensPerSecond r)"] Cons.IH [of "(bm, bs)"]
      Cons.prems b
    by auto
qed

lemma best_of_comparisons_positive:
  assumes "b = ('''', 0) \<or> 0 < snd b"
  shows "best_of_comparisons category b cs = ('''', 0)
         \<or> 0 < snd (best_of_comparisons category b cs)"
  using assms
proof (induction cs arbitrary: b)
  case Nil
  then show ?case by simp
next
  case (Cons c cs)
  show ?case
    using Cons.IH [OF best_of_results_basic_positive [OF Cons.prems]] by simp
qed

lemma best_in_category_positive:
  "best_in_category successful category = Some (c, m, v) \<Longrightarrow> 0 < v"
  using best_of_summaries_positive [of "('''', 0)" category successful]
  by (auto simp: best_in_category_def split: prod.splits if_splits)

lemma best_in_category_basic_positive:
  "best_in_category_basic comparisons category = Some (c, m, v) \<Longrightarrow> 0 < v"
  using best_of_comparisons_positive [of "('''', 0)" category comparisons]
  by (auto simp: best_in_category_basic_def split: prod.splits if_splits)


lemma concat_map_Nil_iff: "concat (map f xs) = [] \<longleftrightarrow> (\<forall>x \<in> set xs. f x = [])"
  by (induction xs) auto

lemma categories_iff:
  "c \<in> categories successful \<longleftrightarrow>
     (\<exists>s \<in> set successful. \<exists>r \<in> set (TestResults s).
        Success r \<and> BenchmarkResult.Category r = c)"
  unfolding categories_def by (induction successful) auto

lemma category_table_Nil_iff:
  "category_table successful c = [] \<longleftrightarrow>
     \<not> (\<exists>s \<in> set successful. \<exists>r \<in> set (TestResults s).
          Success r \<and> BenchmarkResult.Category r = c)"
  unfolding category_table_def concat_map_Nil_iff by auto

lemma categories_basic_iff:
  "c \<in> categories_basic comparisons \<longleftrightarrow>
     (\<exists>s \<in> set comparisons. \<exists>r \<in> set (ModelComparison.TestResults s).
        BenchmarkResult_basic.Category r = c)"
  unfolding categories_basic_def by (induction comparisons) auto

lemma category_table_basic_Nil_iff:
  "category_table_basic comparisons c = [] \<longleftrightarrow>
     \<not> (\<exists>s \<in> set comparisons. \<exists>r \<in> set (ModelComparison.TestResults s).
          BenchmarkResult_basic.Success r \<and> BenchmarkResult_basic.Category r = c)"
  unfolding category_table_basic_def concat_map_Nil_iff by auto

lemma best_in_category_None:
  assumes "\<forall>s \<in> set successful. \<forall>r \<in> set (TestResults s).
          Success r \<and> BenchmarkResult.Category r = category \<longrightarrow> TokensPerSecond r = 0"
  shows "best_in_category successful category = None"
proof -
  have "best_of_summaries category ('''', 0) successful = ('''', 0)"
    by (rule best_of_summaries_keep) (use assms in auto)
  then show ?thesis
    by (simp add: best_in_category_def)
qed

lemma best_in_category_basic_None:
  assumes "\<forall>s \<in> set comparisons. \<forall>r \<in> set (ModelComparison.TestResults s).
          BenchmarkResult_basic.Success r \<and> BenchmarkResult_basic.Category r = category \<longrightarrow>
          BenchmarkResult_basic.TokensPerSecond r = 0"
  shows "best_in_category_basic comparisons category = None"
proof -
  have "best_of_comparisons category ('''', 0) comparisons = ('''', 0)"
    by (rule best_of_comparisons_keep) (use assms in auto)
  then show ?thesis
    by (simp add: best_in_category_basic_def)
qed

text \<open>
  C10.  In the search for the best model of a category a result replaces the running best
  only when its tokens per second are strictly greater; the running best starts at 0, so a
  line that is printed has a speed above 0.  For a category that has a successful result and
  whose successful results all report 0 tokens per second, no line is printed, although the
  category is among those of the breakdown and its table has lines.  This holds in both
  drivers.
\<close>

theorem best_in_category_zero_speed:
  "(best_in_category successful category = Some (c, m, v) \<longrightarrow> 0 < v)
   \<and> (best_in_category_basic comparisons category = Some (c, m, v) \<longrightarrow> 0 < v)
   \<and> ((\<exists>s \<in> set successful. \<exists>r \<in> set (TestResults s).
          Success r \<and> BenchmarkResult.Category r = category)
       \<and> (\<forall>s \<in> set successful. \<forall>r \<in> set (TestResults s).
          Success r \<and> BenchmarkResult.Category r = category \<longrightarrow> TokensPerSecond r = 0)
       \<longrightarrow> best_in_category successful category = None
           \<and> category \<in> categories successful
           \<and> category_table successful category \<noteq> [])
   \<and> ((\<exists>s \<in> set comparisons. \<exists>r \<in> set (ModelComparison.TestResults s).
          BenchmarkResult_basic.Success r \<and> BenchmarkResult_basic.Category r = category)
       \<and> (\<forall>s \<in> set comparisons. \<forall>r \<in> set (ModelComparison.TestResults s).
          BenchmarkResult_basic.Success r \<and> BenchmarkResult_basic.Category r = category \<longrightarrow>
          BenchmarkResult_basic.TokensPerSecond r = 0)
       \<longrightarrow> best_in_category_basic comparisons category = None
           \<and> category \<in> categories_basic comparisons
           \<and> category_table_basic comparisons category \<noteq> [])"
    (is "?P1 \<and> ?P2 \<and> (?E \<and> ?Z \<longrightarrow> ?C) \<and> (?E' \<and> ?Z' \<longrightarrow> ?C')")
proof -
  have p1: ?P1
    using best_in_category_positive by blast
  have p2: ?P2
    using best_in_category_basic_positive by blast
  have smart: "?E \<and> ?Z \<longrightarrow> ?C"
  proof
    assume a: "?E \<and> ?Z"
    have "best_in_category successful category = None"
      by (rule best_in_category_None) (use a in blast)
    moreover have "category \<in> categories successful"
      unfolding categories_iff using a by blast
    moreover have "category_table successful category \<noteq> []"
      unfolding category_table_Nil_iff using a by blast
    ultimately show ?C
      by simp
  qed
  have basic: "?E' \<and> ?Z' \<longrightarrow> ?C'"
  proof
    assume a: "?E' \<and> ?Z'"
    have "best_in_category_basic comparisons category = None"
      by (rule best_in_category_basic_None) (use a in blast)
    moreover have "category \<in> categories_basic comparisons"
      unfolding categories_basic_iff using a by blast
    moreover have "category_table_basic comparisons category \<noteq> []"
      unfolding category_table_basic_Nil_iff using a by blast
    ultimately show ?C'
      by simp
  qed
  from p1 p2 smart basic show ?thesis
    by (intro conjI)
qed

lemma zero_summary_fields:
  "map (\<lambda>r. (BenchmarkResult.Category r, Success r, TokensPerSecond r, TotalTimeMs r,
              TotalTokens r)) (TestResults zero_summary)
     = [(''reasoning'', True, 0, 0, 0), (''coding'', True, 0, 0, 0), (''math'', True, 0, 0, 0),
        (''creative'', True, 0, 0, 0), (''qa'', True, 0, 0, 0)]
   \<and> ModelSummary.ModelName zero_summary = ''llama3.2:1b''"
  by (simp add: zero_summary_def benchmark_model_results benchmark_model_cases summarize_def
      numbered_def testCases_def upt_rec zero_env_def checkModelInstalled_def installed_tags_def
      runBenchmark_def Let_def zero_answer_def word_sless_alt)

lemma zero_comparison_fields:
  "map (\<lambda>r. (BenchmarkResult_basic.Category r, BenchmarkResult_basic.Success r,
              BenchmarkResult_basic.TokensPerSecond r, BenchmarkResult_basic.TotalTimeMs r,
              BenchmarkResult_basic.TotalTokens r)) (ModelComparison.TestResults zero_comparison)
     = [(''math'', True, 0, 0, 0)]
   \<and> ModelComparison.ModelName zero_comparison = ''llama3.2:1b''"
  by (simp add: zero_comparison_def runBenchmark_basic_def Let_def zero_answer_def
      word_sless_alt)

lemma mixed_best:
  "best_in_category [benchmark_model overlap_config testCases mixed_env ''llama3.2:3b'']
     ''coding'' = Some (''coding'', ''llama3.2:3b'', 20)"
  by (simp add: best_in_category_def benchmark_model_results benchmark_model_cases
      summarize_def numbered_def testCases_def upt_rec mixed_env_def checkModelInstalled_def
      installed_tags_def runBenchmark_def Let_def answer_with_speed_def fast_answer_def
      word_sless_alt)

lemma fast_comparison_best:
  "best_in_category_basic [zero_comparison, fast_comparison] ''math''
     = Some (''math'', ''gemma2:2b'', 50)"
  by (simp add: best_in_category_basic_def zero_comparison_def fast_comparison_def
      runBenchmark_basic_def Let_def zero_answer_def fast_answer_def word_sless_alt)

theorem best_in_category_zero_speed_witness:
  "best_in_category [zero_summary] ''math'' = None
   \<and> ''math'' \<in> categories [zero_summary]
   \<and> category_table [zero_summary] ''math'' \<noteq> []
   \<and> best_in_category_basic [zero_comparison] ''math'' = None
   \<and> ''math'' \<in> categories_basic [zero_comparison]
   \<and> category_table_basic [zero_comparison] ''math'' \<noteq> []
   \<and> best_in_category [benchmark_model overlap_config testCases mixed_env ''llama3.2:3b'']
        ''coding'' = Some (''coding'', ''llama3.2:3b'', 20)
   \<and> best_in_category_basic [zero_comparison, fast_comparison] ''math''
        = Some (''math'', ''gemma2:2b'', 50)
   \<and> (0::real) < 20 \<and> (0::real) < 50"
proof -
  obtain r1 r2 r3 r4 r5 where rs: "TestResults zero_summary = [r1, r2, r3, r4, r5]"
    and f: "BenchmarkResult.Category r1 = ''reasoning''" "BenchmarkResult.Category r2 = ''coding''"
      "BenchmarkResult.Category r3 = ''math''" "BenchmarkResult.Category r4 = ''creative''"
      "BenchmarkResult.Category r5 = ''qa''"
      "Success r3" "TokensPerSecond r3 = 0"
    using conjunct1 [OF zero_summary_fields] by (auto simp: map_eq_Cons_conv)
  obtain b1 where bs: "ModelComparison.TestResults zero_comparison = [b1]"
    and g: "BenchmarkResult_basic.Category b1 = ''math''" "BenchmarkResult_basic.Success b1"
      "BenchmarkResult_basic.TokensPerSecond b1 = 0"
    using conjunct1 [OF zero_comparison_fields] by (auto simp: map_eq_Cons_conv)
  show ?thesis
    using
      best_in_category_zero_speed
        [of "[zero_summary]" "''math''" "''math''" "''llama3.2:1b''" 1 "[zero_comparison]"]
      best_in_category_zero_speed
        [of "[benchmark_model overlap_config testCases mixed_env ''llama3.2:3b'']" "''coding''"
            "''coding''" "''llama3.2:3b''" 20 "[zero_comparison]"]
      best_in_category_zero_speed
        [of "[zero_summary]" "''math''" "''math''" "''gemma2:2b''" 50
            "[zero_comparison, fast_comparison]"]
    by (simp add: rs f bs g mixed_best fast_comparison_best)
qed

lemma strict_weak_order_by_speed: "strict_weak_order by_speed"
  by (auto simp: strict_weak_order_def by_speed_def)

lemma gap_pass_length: "length (gap_pass lt i xs) = length xs"
proof (induction lt i xs rule: gap_pass.induct)
  case (1 lt i xs)
  show ?case
  proof (cases "i < length xs")
    case True
    then show ?thesis
      using "1.IH" by (subst gap_pass.simps) simp
  next
    case False
    then show ?thesis
      by (subst gap_pass.simps) simp
  qed
qed

lemma gap_pass_mset: "mset (gap_pass lt i xs) = mset xs"
proof (induction lt i xs rule: gap_pass.induct)
  case (1 lt i xs)
  show ?case
  proof (cases "i < length xs")
    case True
    then have "mset (xs[i := xs ! (i - 6), i - 6 := xs ! i]) = mset xs"
      by (simp add: mset_swap)
    then show ?thesis
      using "1.IH" True by (subst gap_pass.simps) simp
  next
    case False
    then show ?thesis
      by (subst gap_pass.simps) simp
  qed
qed

lemma insert_back_mset: "mset (insert_back lt ys x) = add_mset x (mset ys)"
proof -
  have "mset (rev ys) = mset (takeWhile (lt x) (rev ys)) + mset (dropWhile (lt x) (rev ys))"
    by (metis mset_append takeWhile_dropWhile_id)
  then show ?thesis
    by (simp add: insert_back_def)
qed

lemma foldl_insert_back_mset: "mset (foldl (insert_back lt) acc xs) = mset acc + mset xs"
  by (induction xs arbitrary: acc) (simp_all add: insert_back_mset)

lemma insertionSort_mset: "mset (insertionSort lt xs) = mset xs"
  by (simp add: insertionSort_def foldl_insert_back_mset)

lemma insert_back_sorted:
  assumes swo: "strict_weak_order lt"
    and sorted: "sorted_wrt (\<lambda>a b. \<not> lt b a) ys"
  shows "sorted_wrt (\<lambda>a b. \<not> lt b a) (insert_back lt ys x)"
proof -
  define T where "T = takeWhile (lt x) (rev ys)"
  define D where "D = dropWhile (lt x) (rev ys)"
  have ys: "ys = rev D @ rev T"
    by (metis T_def D_def rev_append rev_rev_ident takeWhile_dropWhile_id)
  have asym: "\<And>a b. lt a b \<Longrightarrow> \<not> lt b a"
    and ntrans: "\<And>a b c. \<not> lt a b \<Longrightarrow> \<not> lt b c \<Longrightarrow> \<not> lt a c"
    using swo unfolding strict_weak_order_def by blast+
  have T: "\<forall>b \<in> set T. \<not> lt b x"
    using asym unfolding T_def by (auto dest: set_takeWhileD)
  have D: "\<forall>a \<in> set D. \<not> lt x a"
  proof (cases D)
    case Nil
    then show ?thesis by simp
  next
    case (Cons d D')
    have d: "\<not> lt x d"
      using Cons unfolding D_def by (metis hd_dropWhile list.distinct(1) list.sel(1))
    have "sorted_wrt (\<lambda>a b. \<not> lt b a) (rev D' @ [d])"
      using sorted ys Cons by (simp add: sorted_wrt_append)
    then have "\<forall>a \<in> set D'. \<not> lt d a"
      by (simp add: sorted_wrt_append)
    then show ?thesis
      using d ntrans Cons by auto
  qed
  have "sorted_wrt (\<lambda>a b. \<not> lt b a) (rev D)" "sorted_wrt (\<lambda>a b. \<not> lt b a) (rev T)"
    "\<forall>a \<in> set D. \<forall>b \<in> set T. \<not> lt b a"
    using sorted ys by (auto simp: sorted_wrt_append)
  then show ?thesis
    using T D unfolding insert_back_def T_def [symmetric] D_def [symmetric]
    by (auto simp: sorted_wrt_append)
qed

lemma foldl_insert_back_sorted:
  assumes "strict_weak_order lt" "sorted_wrt (\<lambda>a b. \<not> lt b a) acc"
  shows "sorted_wrt (\<lambda>a b. \<not> lt b a) (foldl (insert_back lt) acc xs)"
  using assms by (induction xs arbitrary: acc) (simp_all add: insert_back_sorted)

lemma insertionSort_sorted:
  "strict_weak_order lt \<Longrightarrow> sorted_wrt (\<lambda>a b. \<not> lt b a) (insertionSort lt xs)"
  by (simp add: insertionSort_def foldl_insert_back_sorted)

lemma shell_insertion_sort_contract: "sort_Slice_contract shell_insertion_sort"
  by (simp add: sort_Slice_contract_def shell_insertion_sort_def insertionSort_mset
      gap_pass_mset insertionSort_sorted)

lemma speed_env_results:
  assumes "0 \<le> sint n"
  shows "map (\<lambda>r. (Success r, TokensPerSecond r))
           (TestResults (benchmark_model config testCases (speed_env name n) name))
         = replicate 5 (True, real_of_int (sint n))"
  by (simp add: benchmark_model_results numbered_def testCases_def upt_rec speed_env_def
      checkModelInstalled_def runBenchmark_def Let_def answer_with_speed_def fast_answer_def
      word_sless_alt numeral_eq_Suc)

lemma speed_env_summary:
  assumes "0 \<le> sint n"
  shows "CanRun (benchmark_model config testCases (speed_env name n) name)
       \<and> AvgTokensPerSec (benchmark_model config testCases (speed_env name n) name)
           = real_of_int (sint n)
       \<and> ModelSummary.ModelName (benchmark_model config testCases (speed_env name n) name) = name"
proof -
  let ?s = "benchmark_model config testCases (speed_env name n) name"
  have fields: "map (\<lambda>r. (Success r, TokensPerSecond r)) (TestResults ?s)
      = replicate 5 (True, real_of_int (sint n))"
    using speed_env_results [OF assms] .
  have "map Success (TestResults ?s) = replicate 5 True"
    using arg_cong [OF fields, of "map fst"] by (simp add: comp_def)
  then have all: "\<forall>r \<in> set (TestResults ?s). Success r"
    by (metis (no_types, lifting) in_set_replicate imageI list.set_map)
  then have succ: "successes ?s = TestResults ?s"
    by (simp add: successes_def)
  have tps: "map TokensPerSecond (TestResults ?s) = replicate 5 (real_of_int (sint n))"
    using arg_cong [OF fields, of "map snd"] by (simp add: comp_def)
  have ne: "TestResults ?s \<noteq> []"
    using tps by auto
  have name: "ModelSummary.ModelName ?s = name"
    by (simp add: benchmark_model_cases summarize_def skipped_def Let_def)
  show ?thesis
    using benchmark_model_summary [OF refl, of config testCases "speed_env name n" name]
    by (simp add: succ tps ne name mean_def numeral_eq_Suc)
qed

lemma tied_summaries_eq:
  "tied_summaries =
     [benchmark_model keep_all_config testCases (speed_env ''gemma2:2b'' 5) ''gemma2:2b'',
      benchmark_model keep_all_config testCases (speed_env ''gemma2:9b'' 5) ''gemma2:9b'',
      benchmark_model keep_all_config testCases (speed_env ''llama3.1:8b'' 9) ''llama3.1:8b'',
      benchmark_model keep_all_config testCases (speed_env ''llama3.2:1b'' 9) ''llama3.2:1b'',
      benchmark_model keep_all_config testCases (speed_env ''llama3.2:3b'' 9) ''llama3.2:3b'',
      benchmark_model keep_all_config testCases (speed_env ''mistral:7b'' 9) ''mistral:7b'',
      benchmark_model keep_all_config testCases (speed_env ''phi3:mini'' 7) ''phi3:mini'']"
  by (simp add: tied_summaries_def run_benchmarks_map numbered_def tied_models_def
      tied_daemon_def tied_speeds_def upt_rec)

lemma shell_insertion_sort_seven:
  assumes "AvgTokensPerSec a = 5" "AvgTokensPerSec b = 5" "AvgTokensPerSec c = 9"
    "AvgTokensPerSec d = 9" "AvgTokensPerSec e = 9" "AvgTokensPerSec f = 9"
    "AvgTokensPerSec g = 7"
  shows "shell_insertion_sort by_speed [a, b, c, d, e, f, g] = [c, d, e, f, g, b, a]"
proof -
  have "gap_pass by_speed 6 [a, b, c, d, e, f, g] = [g, b, c, d, e, f, a]"
    apply (subst gap_pass.simps)
    apply (simp add: by_speed_def assms)
    apply (subst gap_pass.simps)
    apply simp
    done
  then show ?thesis
    by (simp add: shell_insertion_sort_def insertionSort_def insert_back_def by_speed_def assms)
qed

lemma tied_ranking:
  "filter CanRun tied_summaries = tied_summaries
   \<and> overall_ranking shell_insertion_sort tied_summaries =
     [benchmark_model keep_all_config testCases (speed_env ''llama3.1:8b'' 9) ''llama3.1:8b'',
      benchmark_model keep_all_config testCases (speed_env ''llama3.2:1b'' 9) ''llama3.2:1b'',
      benchmark_model keep_all_config testCases (speed_env ''llama3.2:3b'' 9) ''llama3.2:3b'',
      benchmark_model keep_all_config testCases (speed_env ''mistral:7b'' 9) ''mistral:7b'',
      benchmark_model keep_all_config testCases (speed_env ''phi3:mini'' 7) ''phi3:mini'',
      benchmark_model keep_all_config testCases (speed_env ''gemma2:9b'' 5) ''gemma2:9b'',
      benchmark_model keep_all_config testCases (speed_env ''gemma2:2b'' 5) ''gemma2:2b'']"
proof -
  note s5 = speed_env_summary [of 5 keep_all_config, simplified]
  note s9 = speed_env_summary [of 9 keep_all_config, simplified]
  note s7 = speed_env_summary [of 7 keep_all_config, simplified]
  have can: "filter CanRun tied_summaries = tied_summaries"
    unfolding tied_summaries_eq by (simp add: s5 s9 s7)
  show ?thesis
    unfolding overall_ranking_def can
    unfolding tied_summaries_eq
    by (simp add: shell_insertion_sort_seven s5 s9 s7)
qed

text \<open>
  C2, as the code has it.  Whatever \<open>sort.Slice\<close> does within its contract, the overall
  ranking holds exactly the summaries that can run, each as often as the input does, in
  descending order of the average tokens per second.
\<close>

theorem overall_ranking_descending:
  assumes "sort_Slice_contract sort_Slice"
  shows "mset (overall_ranking sort_Slice summaries) = mset (filter CanRun summaries)
       \<and> sorted_wrt (\<lambda>a b. AvgTokensPerSec a \<ge> AvgTokensPerSec b)
           (overall_ranking sort_Slice summaries)"
proof -
  have "mset (sort_Slice by_speed (filter CanRun summaries)) = mset (filter CanRun summaries)"
    and "sorted_wrt (\<lambda>a b. \<not> by_speed b a) (sort_Slice by_speed (filter CanRun summaries))"
    using assms strict_weak_order_by_speed unfolding sort_Slice_contract_def by blast+
  moreover have "(\<lambda>a b. \<not> by_speed b a) = (\<lambda>a b. AvgTokensPerSec a \<ge> AvgTokensPerSec b)"
    by (auto simp: by_speed_def fun_eq_iff)
  ultimately show ?thesis
    by (simp add: overall_ranking_def)
qed

theorem overall_ranking_descending_witness:
  "sort_Slice_contract (shell_insertion_sort :: ModelSummary slice_sort)
   \<and> map AvgTokensPerSec (overall_ranking shell_insertion_sort tied_summaries)
       = [9, 9, 9, 9, 7, 5, 5]
   \<and> map AvgTokensPerSec (filter CanRun tied_summaries) = [5, 5, 9, 9, 9, 9, 7]
   \<and> sorted_wrt (\<lambda>a b. AvgTokensPerSec a \<ge> AvgTokensPerSec b)
       (overall_ranking shell_insertion_sort tied_summaries)"
proof -
  note s5 = speed_env_summary [of 5 keep_all_config, simplified]
  note s9 = speed_env_summary [of 9 keep_all_config, simplified]
  note s7 = speed_env_summary [of 7 keep_all_config, simplified]
  have "map AvgTokensPerSec (overall_ranking shell_insertion_sort tied_summaries)
       = [9, 9, 9, 9, 7, 5, 5]"
    unfolding conjunct2 [OF tied_ranking] by (simp add: s5 s9 s7)
  moreover have "map AvgTokensPerSec (filter CanRun tied_summaries) = [5, 5, 9, 9, 9, 9, 7]"
    unfolding conjunct1 [OF tied_ranking] unfolding tied_summaries_eq by (simp add: s5 s9 s7)
  ultimately show ?thesis
    using overall_ranking_descending [OF shell_insertion_sort_contract, of tied_summaries]
      shell_insertion_sort_contract
    by simp
qed

text \<open>
  C2, as the claim has it, fails: the order of models with equal averages is not kept by
  every \<open>sort.Slice\<close> within the contract.  Of the seven models above, \<open>gemma2:2b\<close> and
  \<open>gemma2:9b\<close> both average 5 tokens per second and come in this order in the catalog; the
  ranking lists \<open>gemma2:9b\<close> first.
\<close>

theorem overall_ranking_ties_counterexample:
  "sort_Slice_contract (shell_insertion_sort :: ModelSummary slice_sort)
   \<and> with_speed 5 (overall_ranking shell_insertion_sort tied_summaries)
       \<noteq> with_speed 5 (filter CanRun tied_summaries)
   \<and> map ModelSummary.ModelName (with_speed 5 (filter CanRun tied_summaries))
       = [''gemma2:2b'', ''gemma2:9b'']
   \<and> map ModelSummary.ModelName
         (with_speed 5 (overall_ranking shell_insertion_sort tied_summaries))
       = [''gemma2:9b'', ''gemma2:2b'']"
proof -
  note s5 = speed_env_summary [of 5 keep_all_config, simplified]
  note s9 = speed_env_summary [of 9 keep_all_config, simplified]
  note s7 = speed_env_summary [of 7 keep_all_config, simplified]
  have catalog_order: "map ModelSummary.ModelName (with_speed 5 (filter CanRun tied_summaries))
       = [''gemma2:2b'', ''gemma2:9b'']"
    unfolding conjunct1 [OF tied_ranking] unfolding tied_summaries_eq
    by (simp add: with_speed_def s5 s9 s7)
  have ranking_order: "map ModelSummary.ModelName
         (with_speed 5 (overall_ranking shell_insertion_sort tied_summaries))
       = [''gemma2:9b'', ''gemma2:2b'']"
    unfolding conjunct2 [OF tied_ranking] by (simp add: with_speed_def s5 s9 s7)
  have "with_speed 5 (overall_ranking shell_insertion_sort tied_summaries)
       \<noteq> with_speed 5 (filter CanRun tied_summaries)"
    using catalog_order ranking_order by auto
  then show ?thesis
    using catalog_order ranking_order shell_insertion_sort_contract by simp
qed

end
